theory Spec2Isabelle
  imports Complex_Main "HOL-Library.Char_ord" "HOL-Library.List_Lexorder"
begin

section \<open>JavaScript values used by the stock data agent\<close>

text \<open>
  The agent (\<^verbatim>\<open>StockDataAgent\<close>, \<^verbatim>\<open>src/unnamed/part_003\<close>) computes with JavaScript
  numbers. A number is modelled as a real, or one of the three special values the code
  can meet (\<^verbatim>\<open>NaN\<close> from a failed parse, the infinities from a parse of
  \<^verbatim>\<open>Infinity\<close> or of an out-of-range literal). Arithmetic on finite values is exact:
  the rounding of binary64, overflow of finite arithmetic and the sign of zero are not
  modelled.
\<close>

datatype jsnum = Num real | NaN | PInf | NInf

text \<open>Truthiness of a number (\<^verbatim>\<open>x ? a : b\<close>, \<^verbatim>\<open>x || y\<close>): \<^verbatim>\<open>0\<close> and \<^verbatim>\<open>NaN\<close> are falsy.\<close>

fun truthy :: "jsnum \<Rightarrow> bool" where
  "truthy (Num x) = (x \<noteq> 0)"
| "truthy NaN = False"
| "truthy PInf = True"
| "truthy NInf = True"

fun isNaN :: "jsnum \<Rightarrow> bool" where
  "isNaN NaN = True"
| "isNaN _ = False"

fun js_neg :: "jsnum \<Rightarrow> jsnum" where
  "js_neg (Num x) = Num (- x)"
| "js_neg NaN = NaN"
| "js_neg PInf = NInf"
| "js_neg NInf = PInf"

fun js_add :: "jsnum \<Rightarrow> jsnum \<Rightarrow> jsnum" where
  "js_add (Num x) (Num y) = Num (x + y)"
| "js_add NaN _ = NaN"
| "js_add _ NaN = NaN"
| "js_add PInf NInf = NaN"
| "js_add NInf PInf = NaN"
| "js_add PInf _ = PInf"
| "js_add NInf _ = NInf"
| "js_add _ PInf = PInf"
| "js_add _ NInf = NInf"

definition js_sub :: "jsnum \<Rightarrow> jsnum \<Rightarrow> jsnum" where
  "js_sub a b = js_add a (js_neg b)"

text \<open>The sign of a non-NaN number, as \<open>-1\<close>, \<open>0\<close> or \<open>1\<close>.\<close>

fun js_sign :: "jsnum \<Rightarrow> int" where
  "js_sign (Num x) = (if x < 0 then - 1 else if x = 0 then 0 else 1)"
| "js_sign PInf = 1"
| "js_sign NInf = - 1"
| "js_sign NaN = 0"

definition signed_inf :: "int \<Rightarrow> jsnum" where
  "signed_inf s = (if s < 0 then NInf else PInf)"

fun js_mul :: "jsnum \<Rightarrow> jsnum \<Rightarrow> jsnum" where
  "js_mul (Num x) (Num y) = Num (x * y)"
| "js_mul NaN _ = NaN"
| "js_mul _ NaN = NaN"
| "js_mul a b = (if js_sign a * js_sign b = 0 then NaN else signed_inf (js_sign a * js_sign b))"

text \<open>Division: a finite value over zero is an infinity (zero taken as \<open>+0\<close>), \<open>0/0\<close> and
  \<open>\<infinity>/\<infinity>\<close> are \<^verbatim>\<open>NaN\<close>; it never raises.\<close>

fun js_div :: "jsnum \<Rightarrow> jsnum \<Rightarrow> jsnum" where
  "js_div NaN _ = NaN"
| "js_div _ NaN = NaN"
| "js_div (Num x) (Num y) =
     (if y = 0 then (if x = 0 then NaN else signed_inf (js_sign (Num x))) else Num (x / y))"
| "js_div (Num x) _ = Num 0"
| "js_div a (Num y) = signed_inf (js_sign a * (if y < 0 then - 1 else 1))"
| "js_div _ _ = NaN"

text \<open>\<^verbatim>\<open>a < b\<close> and \<^verbatim>\<open>a <= b\<close>; every comparison with \<^verbatim>\<open>NaN\<close> is false.\<close>

fun js_less :: "jsnum \<Rightarrow> jsnum \<Rightarrow> bool" where
  "js_less NaN _ = False"
| "js_less _ NaN = False"
| "js_less (Num x) (Num y) = (x < y)"
| "js_less NInf b = (b \<noteq> NInf)"
| "js_less a PInf = (a \<noteq> PInf)"
| "js_less _ _ = False"

fun js_le :: "jsnum \<Rightarrow> jsnum \<Rightarrow> bool" where
  "js_le NaN _ = False"
| "js_le _ NaN = False"
| "js_le a b = (a = b \<or> js_less a b)"

text \<open>\<^verbatim>\<open>ToIntegerOrInfinity\<close> followed by the clamping of \<^verbatim>\<open>Array.prototype.slice(start)\<close>:
  the elements from the relative index \<open>start\<close> to the end.\<close>

definition trunc :: "real \<Rightarrow> int" where
  "trunc x = (if 0 \<le> x then \<lfloor>x\<rfloor> else \<lceil>x\<rceil>)"

fun slice_from :: "jsnum \<Rightarrow> 'a list \<Rightarrow> 'a list" where
  "slice_from NaN xs = xs"
| "slice_from PInf xs = []"
| "slice_from NInf xs = xs"
| "slice_from (Num x) xs =
     (let k = trunc x in
      if k < 0 then drop (nat (int (length xs) + k)) xs else drop (nat k) xs)"

subsection \<open>Strings\<close>

text \<open>Strings are lists of characters; only the ASCII part of \<^verbatim>\<open>trim\<close> and
  \<^verbatim>\<open>toUpperCase\<close> is modelled.\<close>

definition is_ws :: "char \<Rightarrow> bool" where
  "is_ws c = (let n = (of_char c :: nat) in n = 32 \<or> (9 \<le> n \<and> n \<le> 13))"

definition trim :: "string \<Rightarrow> string" where
  "trim s = rev (dropWhile is_ws (rev (dropWhile is_ws s)))"

definition upper_char :: "char \<Rightarrow> char" where
  "upper_char c = (let n = (of_char c :: nat) in if 97 \<le> n \<and> n \<le> 122 then char_of (n - 32) else c)"

definition toUpperCase :: "string \<Rightarrow> string" where
  "toUpperCase s = map upper_char s"

text \<open>\<^verbatim>\<open>s.split(d)\<close> for a one-character separator: always at least one piece.\<close>

fun split_on :: "char \<Rightarrow> string \<Rightarrow> string list" where
  "split_on d [] = [[]]"
| "split_on d (c # cs) =
     (if c = d then [] # split_on d cs
      else (case split_on d cs of [] \<Rightarrow> [[c]] | p # ps \<Rightarrow> (c # p) # ps))"

text \<open>\<^verbatim>\<open>xs[i]\<close> on an array: \<^verbatim>\<open>undefined\<close> (here \<open>None\<close>) out of range.\<close>

definition at_index :: "'a list \<Rightarrow> nat \<Rightarrow> 'a option" where
  "at_index xs i = (if i < length xs then Some (xs ! i) else None)"

text \<open>\<^verbatim>\<open>parseInt(s, 10)\<close>: leading white space, an optional sign, the longest run of
  decimal digits; \<^verbatim>\<open>NaN\<close> when there is no digit.\<close>

definition is_digit :: "char \<Rightarrow> bool" where
  "is_digit c = (let n = (of_char c :: nat) in 48 \<le> n \<and> n \<le> 57)"

definition digits_value :: "string \<Rightarrow> nat" where
  "digits_value ds = foldl (\<lambda>a c. 10 * a + (of_char c - 48)) 0 ds"

definition parseInt10 :: "string \<Rightarrow> jsnum" where
  "parseInt10 s =
     (let t = dropWhile is_ws s;
          neg = (case t of [] \<Rightarrow> False | c # _ \<Rightarrow> c = CHR ''-'');
          u = (case t of [] \<Rightarrow> [] | c # r \<Rightarrow> if c = CHR ''-'' \<or> c = CHR ''+'' then r else t);
          ds = takeWhile is_digit u
      in if ds = [] then NaN
         else Num (if neg then - real (digits_value ds) else real (digits_value ds)))"

text \<open>\<^verbatim>\<open>process.env.X || dflt\<close>: an unset or empty variable gives the default.\<close>

definition env_or :: "string option \<Rightarrow> string \<Rightarrow> string" where
  "env_or v dflt = (case v of None \<Rightarrow> dflt | Some s \<Rightarrow> if s = [] then dflt else s)"

section \<open>Data model\<close>

record company =
  symbol :: string
  name :: string
  sector :: string

text \<open>A price row as the adapters build it; the field \<^verbatim>\<open>open\<close> is \<open>open_price\<close> here.\<close>

record price_row = company +
  date :: string
  open_price :: jsnum
  high :: jsnum
  low :: jsnum
  close :: jsnum
  volume :: jsnum
  adjustedClose :: jsnum
  priceChange :: jsnum
  priceChangePercent :: jsnum

text \<open>One element of \<^verbatim>\<open>priceHistory\<close>; \<open>h_date\<close> is the time value of the \<^verbatim>\<open>Date\<close> object.\<close>

record history_point =
  h_date :: jsnum
  h_open :: jsnum
  h_high :: jsnum
  h_low :: jsnum
  h_close :: jsnum
  h_volume :: jsnum
  h_adjustedClose :: jsnum


text \<open>The content of \<^verbatim>\<open>last_update.json\<close> after \<^verbatim>\<open>JSON.parse\<close>: \<open>MetaJunk\<close> is a content
  that does not parse or parses to a falsy value; in \<open>MetaObj\<close>, \<open>lastUpdate\<close> is the time
  value of \<^verbatim>\<open>new Date(info.lastUpdate)\<close> (\<^verbatim>\<open>NaN\<close> when the field is missing or is no date).
  \<^verbatim>\<open>toISOString\<close> followed by \<^verbatim>\<open>new Date\<close> gives the time value back.\<close>

record update_info =
  lastUpdate :: jsnum
  totalCompanies :: nat
  dataPoints :: nat

datatype meta_content = MetaJunk | MetaObj update_info

datatype error =
    ConfigurationError
  | TransportError
  | ProviderExhausted string
  | TypeError
  | FsError
  | StoreUnavailable
  | StoreEmpty
  | SymbolNotFound string

section \<open>The world outside the agent\<close>

text \<open>What a provider sends back: \<open>HttpError\<close> is an \<^verbatim>\<open>axios.get\<close> that throws (transport
  error, timeout, non-2xx status), \<open>HttpOk\<close> carries \<^verbatim>\<open>res.data\<close>.\<close>

datatype 'a http = HttpError | HttpOk 'a

text \<open>The Alpha Vantage payload (\<^verbatim>\<open>res.data || {}\<close>): the three keys the code reads. A
  daily entry is a JSON object with string fields, or \<open>None\<close> for a JSON \<^verbatim>\<open>null\<close>.\<close>

type_synonym alpha_entry = "string \<Rightarrow> string option"

record alpha_data =
  Note :: "string option"
  Error_Message :: "string option"
  Time_Series_Daily :: "(string \<times> alpha_entry option) list option"

text \<open>The Yahoo chart payload below \<^verbatim>\<open>data.chart.result[0]\<close>; the arrays hold JSON numbers
  or \<^verbatim>\<open>null\<close> (\<open>None\<close>), and a key may be absent (\<open>None\<close> for the array).
  \<open>indicators_quote\<close> is the array \<^verbatim>\<open>result.indicators.quote\<close>, \<open>None\<close> where reading it
  throws a \<^verbatim>\<open>TypeError\<close>.\<close>

record yahoo_quote =
  q_open :: "jsnum option list option"
  q_high :: "jsnum option list option"
  q_low :: "jsnum option list option"
  q_close :: "jsnum option list option"
  q_volume :: "jsnum option list option"

record yahoo_result =
  timestamp :: "jsnum option list option"
  indicators_quote :: "yahoo_quote option list option"

text \<open>
  Everything the agent takes from its platform and does not define:
  \<^item> library functions whose exact result is outside this model (parsing of number and
    date strings, the ISO date of a time value, the line \<^verbatim>\<open>csv-writer\<close> writes for one
    record) are parameters, so every theorem holds for each behaviour they may have;
  \<^item> the environment variables;
  \<^item> the providers, as functions of the number of requests sent before (a provider may
    answer the same request differently later), the symbol and, for Yahoo, the range.
\<close>

record platform =
  str_parseFloat :: "string \<Rightarrow> jsnum"
  str_parseInt :: "string \<Rightarrow> jsnum"
  num_parseInt :: "jsnum \<Rightarrow> jsnum"
  date_parse :: "string \<Rightarrow> jsnum"
  date_iso :: "real \<Rightarrow> string"
  csv_record :: "price_row \<Rightarrow> string"
  ALPHA_VANTAGE_API_KEY :: "string option"
  STOCK_MAX_RETRIES :: "string option"
  STOCK_FETCH_DELAY_MS :: "string option"
  alpha_api :: "nat \<Rightarrow> string \<Rightarrow> alpha_data http"
  yahoo_api :: "nat \<Rightarrow> string \<Rightarrow> string \<Rightarrow> yahoo_result option http"

text \<open>The fields of the agent object set by its constructor.\<close>

record agent =
  companies :: "company list"
  days :: jsnum

datatype event =
    AlphaGet string nat
  | YahooGet string string
  | Sleep jsnum
  | CsvWrite string nat
  | MetaWrite

text \<open>
  The mutable world: the data directory with its two files, whether the file system
  accepts a \<^verbatim>\<open>mkdir\<close> and a write to each file, the clock (milliseconds), the number of
  HTTP requests sent, and the trace of what the agent did, oldest event first.
\<close>

record world =
  dir_exists :: bool
  csv_file :: "string option"
  meta_file :: "meta_content option"
  mkdir_ok :: bool
  csv_write_ok :: bool
  meta_write_ok :: bool
  clock :: int
  http_count :: nat
  trace :: "event list"

section \<open>Queries: \<^verbatim>\<open>getStockData\<close> and \<^verbatim>\<open>filterByPeriod\<close>\<close>

type_synonym csv_row = "string \<Rightarrow> string option"

definition non_blank_lines :: "string \<Rightarrow> string list" where
  "non_blank_lines fileContent = filter (\<lambda>line. trim line \<noteq> []) (split_on CHR 0x0A fileContent)"


text \<open>\<^verbatim>\<open>new Date(r.Date)\<close> as a time value, \<^verbatim>\<open>parseFloat(r.X)\<close>, \<^verbatim>\<open>parseInt(r.X)\<close>: a
  missing column is \<^verbatim>\<open>undefined\<close> and gives \<^verbatim>\<open>NaN\<close>.\<close>

definition row_date :: "platform \<Rightarrow> csv_row \<Rightarrow> jsnum" where
  "row_date P r = (case r ''Date'' of None \<Rightarrow> NaN | Some s \<Rightarrow> date_parse P s)"

definition cell_float :: "platform \<Rightarrow> string option \<Rightarrow> jsnum" where
  "cell_float P v = (case v of None \<Rightarrow> NaN | Some s \<Rightarrow> str_parseFloat P s)"

definition cell_int :: "platform \<Rightarrow> string option \<Rightarrow> jsnum" where
  "cell_int P v = (case v of None \<Rightarrow> NaN | Some s \<Rightarrow> str_parseInt P s)"


text \<open>
  \<^verbatim>\<open>Array.prototype.sort(cmp)\<close> is stable, and a comparator result of \<^verbatim>\<open>NaN\<close> counts as
  \<open>0\<close>. It is modelled by a stable insertion sort: \<open>x\<close> moves behind \<open>y\<close> only when
  \<open>cmp x y > 0\<close>. For a consistent comparator every stable sort returns this list; for
  an inconsistent one (a row whose date is no date) the language leaves the order to the
  engine, and the model fixes this one.
\<close>

fun js_insert :: "('a \<Rightarrow> 'a \<Rightarrow> jsnum) \<Rightarrow> 'a \<Rightarrow> 'a list \<Rightarrow> 'a list" where
  "js_insert cmp x [] = [x]"
| "js_insert cmp x (y # ys) =
     (if js_less (Num 0) (cmp x y) then y # js_insert cmp x ys else x # y # ys)"

definition js_sort :: "('a \<Rightarrow> 'a \<Rightarrow> jsnum) \<Rightarrow> 'a list \<Rightarrow> 'a list" where
  "js_sort cmp xs = foldr (js_insert cmp) xs []"



definition history_of_row :: "platform \<Rightarrow> csv_row \<Rightarrow> history_point" where
  "history_of_row P r =
     \<lparr>h_date = row_date P r,
      h_open = cell_float P (r ''Open''),
      h_high = cell_float P (r ''High''),
      h_low = cell_float P (r ''Low''),
      h_close = cell_float P (r ''Close''),
      h_volume = cell_int P (r ''Volume''),
      h_adjustedClose = cell_float P (r ''AdjustedClose'')\<rparr>"





section \<open>Ingestion\<close>

subsection \<open>Timers\<close>

text \<open>\<^verbatim>\<open>sleep(ms)\<close> is a \<^verbatim>\<open>setTimeout\<close>: Node truncates the delay to an integer and uses 1
  for a delay below 1, above \<open>2\<^sup>3\<^sup>1 - 1\<close> or \<^verbatim>\<open>NaN\<close>. The clock of the model advances
  by timers only; the time the other operations take is not modelled.\<close>

definition timer_delay :: "jsnum \<Rightarrow> int" where
  "timer_delay d =
     (case d of Num x \<Rightarrow> if 1 \<le> x \<and> x \<le> 2147483647 then trunc x else 1 | _ \<Rightarrow> 1)"

definition sleep :: "jsnum \<Rightarrow> world \<Rightarrow> world" where
  "sleep ms w = w\<lparr>clock := clock w + timer_delay ms, trace := trace w @ [Sleep ms]\<rparr>"

subsection \<open>The primary provider: \<^verbatim>\<open>callAlpha\<close>\<close>

text \<open>A string field is truthy when present and not empty.\<close>

definition str_truthy :: "string option \<Rightarrow> bool" where
  "str_truthy v = (case v of None \<Rightarrow> False | Some s \<Rightarrow> s \<noteq> [])"

text \<open>\<^verbatim>\<open>data.Note || data['Error Message'] || 'Alpha Vantage error'\<close>\<close>

definition alpha_message :: "alpha_data \<Rightarrow> string" where
  "alpha_message data =
     (if str_truthy (Note data) then the (Note data)
      else if str_truthy (Error_Message data) then the (Error_Message data)
      else ''Alpha Vantage error'')"

text \<open>
  The helper retries while the provider answers with a note or an error message. Nothing
  bounds the recursion when \<^verbatim>\<open>maxAttempts\<close> is \<^verbatim>\<open>NaN\<close>, so the result is an option:
  \<open>None\<close> is a call that never returns. A returned \<open>Inl\<close> is the exception thrown.
\<close>

partial_function (option) callAlpha ::
  "platform \<Rightarrow> string \<Rightarrow> nat \<Rightarrow> world \<Rightarrow> ((error + alpha_data) \<times> world) option" where
  "callAlpha P symb attempt w =
     (let maxAttempts = parseInt10 (env_or (STOCK_MAX_RETRIES P) ''5'');
          backoffSec = min (60 * attempt) 180;
          w1 = w\<lparr>http_count := Suc (http_count w), trace := trace w @ [AlphaGet symb attempt]\<rparr>
      in case alpha_api P (http_count w) symb of
           HttpError \<Rightarrow> Some (Inl TransportError, w1)
         | HttpOk data \<Rightarrow>
             if str_truthy (Note data) \<or> str_truthy (Error_Message data) then
               if js_le maxAttempts (Num (real attempt))
               then Some (Inl (ProviderExhausted (alpha_message data)), w1)
               else callAlpha P symb (attempt + 1) (sleep (Num (real (backoffSec * 1000))) w1)
             else Some (Inr data, w1))"

declare callAlpha.simps [code]

subsection \<open>Rows of the primary provider\<close>

definition entry_float :: "platform \<Rightarrow> alpha_entry \<Rightarrow> string \<Rightarrow> jsnum" where
  "entry_float P d k = (case d k of None \<Rightarrow> NaN | Some s \<Rightarrow> str_parseFloat P s)"

definition entry_int :: "platform \<Rightarrow> alpha_entry \<Rightarrow> string \<Rightarrow> jsnum" where
  "entry_int P d k = (case d k of None \<Rightarrow> NaN | Some s \<Rightarrow> str_parseInt P s)"

definition alpha_row :: "platform \<Rightarrow> company \<Rightarrow> string \<Rightarrow> alpha_entry \<Rightarrow> price_row" where
  "alpha_row P c dt d =
     (let opn = entry_float P d ''1. open'';
          hi = entry_float P d ''2. high'';
          lo = entry_float P d ''3. low'';
          cls = entry_float P d ''4. close'';
          adj = entry_float P d ''5. adjusted close'';
          vol = entry_int P d ''6. volume'';
          priceChange = js_sub cls opn;
          priceChangePercent = (if truthy opn then js_mul (js_div priceChange opn) (Num 100) else Num 0)
      in \<lparr>symbol = toUpperCase (symbol c), name = name c, sector = sector c,
          date = dt, open_price = opn, high = hi, low = lo, close = cls, volume = vol,
          adjustedClose = (if isNaN adj then cls else adj),
          priceChange = priceChange, priceChangePercent = priceChangePercent\<rparr>)"

text \<open>\<^verbatim>\<open>Object.keys(ts).sort().slice(-(this.days))\<close> mapped to rows; the time series is the
  list of the object's keys with their entries. Reading a field of a \<^verbatim>\<open>null\<close> entry throws
  a \<^verbatim>\<open>TypeError\<close>: the result is then \<open>None\<close>.\<close>

definition alpha_rows ::
  "platform \<Rightarrow> agent \<Rightarrow> company \<Rightarrow> (string \<times> alpha_entry option) list \<Rightarrow> price_row list option" where
  "alpha_rows P A c ts =
     (let dates = slice_from (js_neg (days A)) (sort (remdups (map fst ts)))
      in those (map (\<lambda>dt. case map_of ts dt of
                              Some (Some d) \<Rightarrow> Some (alpha_row P c dt d)
                            | _ \<Rightarrow> None) dates))"

subsection \<open>The fallback provider: \<^verbatim>\<open>fetchFromYahoo\<close>\<close>

text \<open>\<^verbatim>\<open>q.field?.[i]\<close>: \<open>None\<close> is \<^verbatim>\<open>undefined\<close> or \<^verbatim>\<open>null\<close>.\<close>

definition opt_index :: "jsnum option list option \<Rightarrow> nat \<Rightarrow> jsnum option" where
  "opt_index arr i =
     (case arr of None \<Rightarrow> None
      | Some xs \<Rightarrow> (case at_index xs i of None \<Rightarrow> None | Some v \<Rightarrow> v))"

text \<open>\<^verbatim>\<open>parseFloat\<close> of a JSON number gives the number back, of \<^verbatim>\<open>null\<close> or \<^verbatim>\<open>undefined\<close>
  it gives \<^verbatim>\<open>NaN\<close>.\<close>

definition num_parseFloat :: "jsnum option \<Rightarrow> jsnum" where
  "num_parseFloat v = (case v of None \<Rightarrow> NaN | Some x \<Rightarrow> x)"

text \<open>\<^verbatim>\<open>x || null\<close>\<close>

definition or_null :: "jsnum \<Rightarrow> jsnum option" where
  "or_null x = (if truthy x then Some x else None)"

text \<open>The time value of \<^verbatim>\<open>new Date(v)\<close>.\<close>

fun time_clip :: "jsnum \<Rightarrow> jsnum" where
  "time_clip (Num x) = (if \<bar>x\<bar> \<le> 8640000000000000 then Num (real_of_int (trunc x)) else NaN)"
| "time_clip _ = NaN"

fun is_finite :: "jsnum \<Rightarrow> bool" where
  "is_finite (Num x) = True"
| "is_finite _ = False"

fun the_num :: "jsnum \<Rightarrow> real" where
  "the_num (Num x) = x"
| "the_num _ = 0"

text \<open>One round of the loop over \<^verbatim>\<open>timestamps\<close>, in three parts: the time value of
  \<^verbatim>\<open>new Date((timestamps[i] || 0) * 1000)\<close>; the object pushed for an index whose open
  and close are not \<^verbatim>\<open>null\<close>; and the round itself, where \<open>None\<close> is a \<^verbatim>\<open>TypeError\<close>
  (the quote object is missing), \<open>Some None\<close> a \<^verbatim>\<open>continue\<close>, \<open>Some (Some r)\<close> the row
  pushed.\<close>

definition yahoo_time :: "jsnum option list \<Rightarrow> nat \<Rightarrow> jsnum" where
  "yahoo_time timestamps i =
     (let t = (case at_index timestamps i of
                 Some (Some x) \<Rightarrow> if truthy x then x else Num 0
               | _ \<Rightarrow> Num 0)
      in time_clip (js_mul t (Num 1000)))"

definition yahoo_row ::
  "platform \<Rightarrow> string \<Rightarrow> jsnum \<Rightarrow> yahoo_quote \<Rightarrow> nat \<Rightarrow> jsnum \<Rightarrow> jsnum \<Rightarrow> price_row" where
  "yahoo_row P symb ts q i opn cls =
     (let hi = or_null (num_parseFloat (opt_index (q_high q) i));
          lo = or_null (num_parseFloat (opt_index (q_low q) i));
          vol = (let v = (case opt_index (q_volume q) i of None \<Rightarrow> NaN | Some x \<Rightarrow> num_parseInt P x)
                 in if truthy v then v else Num 0);
          change = js_sub cls opn;
          pct = (if truthy opn then js_mul (js_div change opn) (Num 100) else Num 0)
      in \<lparr>symbol = toUpperCase symb, name = toUpperCase symb, sector = ''Unknown'',
          date = date_iso P (the_num ts), open_price = opn,
          high = (case hi of None \<Rightarrow> cls | Some h \<Rightarrow> h),
          low = (case lo of None \<Rightarrow> cls | Some l \<Rightarrow> l),
          close = cls, volume = vol, adjustedClose = cls,
          priceChange = change, priceChangePercent = pct\<rparr>)"

definition yahoo_index ::
  "platform \<Rightarrow> string \<Rightarrow> yahoo_quote option \<Rightarrow> jsnum option list \<Rightarrow> nat \<Rightarrow> price_row option option" where
  "yahoo_index P symb quote timestamps i =
     (let ts = yahoo_time timestamps i
      in if \<not> is_finite ts then Some None
         else case quote of
           None \<Rightarrow> None
         | Some q \<Rightarrow>
             (case or_null (num_parseFloat (opt_index (q_open q) i)) of
                None \<Rightarrow> Some None
              | Some opn \<Rightarrow>
                  (case or_null (num_parseFloat (opt_index (q_close q) i)) of
                     None \<Rightarrow> Some None
                   | Some cls \<Rightarrow> Some (Some (yahoo_row P symb ts q i opn cls)))))"

fun yahoo_loop ::
  "platform \<Rightarrow> string \<Rightarrow> yahoo_quote option \<Rightarrow> jsnum option list \<Rightarrow> nat list \<Rightarrow> price_row list
     \<Rightarrow> price_row list option" where
  "yahoo_loop P symb quote timestamps [] rows = Some rows"
| "yahoo_loop P symb quote timestamps (i # rest) rows =
     (case yahoo_index P symb quote timestamps i of
        None \<Rightarrow> None
      | Some None \<Rightarrow> yahoo_loop P symb quote timestamps rest rows
      | Some (Some r) \<Rightarrow> yahoo_loop P symb quote timestamps rest (rows @ [r]))"

text \<open>The range bucket requested from Yahoo.\<close>

definition yahoo_range :: "agent \<Rightarrow> string" where
  "yahoo_range A = (if js_le (days A) (Num 5) then ''5d''
                    else if js_le (days A) (Num 30) then ''1mo'' else ''3mo'')"

text \<open>The body of \<^verbatim>\<open>fetchFromYahoo\<close> from \<^verbatim>\<open>const result = data.chart.result[0]\<close> on:
  \<open>None\<close> is an exception, which the function catches.\<close>

definition yahoo_rows :: "platform \<Rightarrow> agent \<Rightarrow> string \<Rightarrow> yahoo_result \<Rightarrow> price_row list option" where
  "yahoo_rows P A symb result =
     (case indicators_quote result of
        None \<Rightarrow> None
      | Some qs \<Rightarrow>
          let quote = (case qs of [] \<Rightarrow> None | q # _ \<Rightarrow> q);
              timestamps = (case timestamp result of None \<Rightarrow> [] | Some ts \<Rightarrow> ts)
          in map_option (slice_from (js_neg (days A)))
               (yahoo_loop P symb quote timestamps [0..<length timestamps] []))"

text \<open>The function returns \<^verbatim>\<open>null\<close> (\<open>None\<close>) for a failed request, an unexpected payload
  and any exception; it never throws.\<close>

definition fetchFromYahoo :: "platform \<Rightarrow> agent \<Rightarrow> string \<Rightarrow> world \<Rightarrow> price_row list option \<times> world" where
  "fetchFromYahoo P A symb w =
     (let range = yahoo_range A;
          w1 = w\<lparr>http_count := Suc (http_count w), trace := trace w @ [YahooGet symb range]\<rparr>
      in case yahoo_api P (http_count w) symb range of
           HttpError \<Rightarrow> (None, w1)
         | HttpOk None \<Rightarrow> (None, w1)
         | HttpOk (Some result) \<Rightarrow> (yahoo_rows P A symb result, w1))"

subsection \<open>\<^verbatim>\<open>fetchCompanyData\<close>\<close>

text \<open>The result is \<open>None\<close> when \<^verbatim>\<open>callAlpha\<close> never returns; otherwise the rows, or
  \<^verbatim>\<open>null\<close>, with the world after the requests. Both \<^verbatim>\<open>catch\<close> blocks end in the fallback,
  which does not throw, so no exception leaves the function.\<close>

definition fetchCompanyData ::
  "platform \<Rightarrow> agent \<Rightarrow> company \<Rightarrow> world \<Rightarrow> (price_row list option \<times> world) option" where
  "fetchCompanyData P A c w =
     (case callAlpha P (symbol c) 1 w of
        None \<Rightarrow> None
      | Some (Inl e, w1) \<Rightarrow> Some (fetchFromYahoo P A (symbol c) w1)
      | Some (Inr daily, w1) \<Rightarrow>
          (case Time_Series_Daily daily of
             Some ts \<Rightarrow>
               (case alpha_rows P A c ts of
                  Some rows \<Rightarrow> Some (Some rows, w1)
                | None \<Rightarrow> Some (fetchFromYahoo P A (symbol c) w1))
           | None \<Rightarrow> Some (fetchFromYahoo P A (symbol c) w1)))"

subsection \<open>The store\<close>

definition csv_header :: string where
  "csv_header = ''Date,Symbol,Name,Sector,Open,High,Low,Close,Volume,AdjustedClose,PriceChange,PriceChangePercent''"

text \<open>\<^verbatim>\<open>csv-writer\<close>: \<^verbatim>\<open>writeRecords\<close> writes the header line unless it appends, then one
  line for each record; it opens the file with flag \<^verbatim>\<open>a\<close> (append, creating the file) or
  \<^verbatim>\<open>w\<close> (replace). The write throws when the directory is missing or the file system
  refuses it.\<close>

definition stringifyRecords :: "platform \<Rightarrow> price_row list \<Rightarrow> string" where
  "stringifyRecords P records = concat (map (\<lambda>r. csv_record P r @ [CHR 0x0A]) records)"

definition writeRecords :: "platform \<Rightarrow> bool \<Rightarrow> price_row list \<Rightarrow> world \<Rightarrow> error + world" where
  "writeRecords P appendFlag records w =
     (let writeString = (if appendFlag then [] else csv_header @ [CHR 0x0A]) @ stringifyRecords P records
      in if dir_exists w \<and> csv_write_ok w
         then Inr (w\<lparr>csv_file := Some ((if appendFlag then (case csv_file w of None \<Rightarrow> [] | Some old \<Rightarrow> old)
                                          else []) @ writeString),
                     trace := trace w @ [CsvWrite (if appendFlag then ''a'' else ''w'') (length records)]\<rparr>)
         else Inl FsError)"

definition createInitialCsv :: "platform \<Rightarrow> world \<Rightarrow> error + world" where
  "createInitialCsv P w = writeRecords P False [] w"

definition saveToCsv :: "platform \<Rightarrow> price_row list \<Rightarrow> bool \<Rightarrow> world \<Rightarrow> error + world" where
  "saveToCsv P stockData appendFlag w = writeRecords P appendFlag stockData w"

text \<open>\<^verbatim>\<open>initialize\<close>: \<^verbatim>\<open>mkdir\<close> with \<^verbatim>\<open>recursive\<close> accepts an existing directory. The world
  is returned with the exception, if any, since a failed call may have made the
  directory.\<close>

definition initialize :: "platform \<Rightarrow> world \<Rightarrow> error option \<times> world" where
  "initialize P w =
     (if \<not> (dir_exists w \<or> mkdir_ok w) then (Some FsError, w)
      else let w1 = w\<lparr>dir_exists := True\<rparr>
           in if csv_file w1 = None
              then (case createInitialCsv P w1 of Inl e \<Rightarrow> (Some e, w1) | Inr w2 \<Rightarrow> (None, w2))
              else (None, w1))"

definition getDataPointCount :: "world \<Rightarrow> nat" where
  "getDataPointCount w =
     (case csv_file w of None \<Rightarrow> 0 | Some fileContent \<Rightarrow> length (non_blank_lines fileContent) - 1)"

text \<open>A failed write is caught and logged: the world is unchanged and nothing is thrown.\<close>

definition updateLastUpdateTime :: "agent \<Rightarrow> world \<Rightarrow> world" where
  "updateLastUpdateTime A w =
     (let updateInfo = \<lparr>lastUpdate = Num (real_of_int (clock w)),
                        totalCompanies = length (companies A),
                        dataPoints = getDataPointCount w\<rparr>
      in if dir_exists w \<and> meta_write_ok w
         then w\<lparr>meta_file := Some (MetaObj updateInfo), trace := trace w @ [MetaWrite]\<rparr>
         else w)"

definition getLastUpdateInfo :: "world \<Rightarrow> update_info option" where
  "getLastUpdateInfo w =
     (case meta_file w of None \<Rightarrow> None | Some MetaJunk \<Rightarrow> None | Some (MetaObj info) \<Rightarrow> Some info)"

definition needsUpdate :: "world \<Rightarrow> bool" where
  "needsUpdate w =
     (case getLastUpdateInfo w of
        None \<Rightarrow> True
      | Some info \<Rightarrow>
          let hoursSinceUpdate = js_div (js_sub (Num (real_of_int (clock w))) (lastUpdate info))
                                        (Num (1000 * 60 * 60))
          in js_less (Num 24) hoursSinceUpdate)"

subsection \<open>\<^verbatim>\<open>fetchAllStockData\<close>\<close>

record counters =
  successCount :: nat
  errorCount :: nat
  totalRows :: nat

text \<open>The \<^verbatim>\<open>for\<close> loop over \<^verbatim>\<open>this.companies\<close>, from the company at the head of the list:
  the \<^verbatim>\<open>try\<close> block, its \<^verbatim>\<open>catch\<close>, then the throttle unless the company is the last.\<close>

fun fetch_loop ::
  "platform \<Rightarrow> agent \<Rightarrow> company list \<Rightarrow> counters \<Rightarrow> world \<Rightarrow> (counters \<times> world) option" where
  "fetch_loop P A [] n w = Some (n, w)"
| "fetch_loop P A (c # rest) n w =
     (case fetchCompanyData P A c w of
        None \<Rightarrow> None
      | Some (stockData, w1) \<Rightarrow>
          let perRequestDelayMs = parseInt10 (env_or (STOCK_FETCH_DELAY_MS P) ''15000'');
              (n2, w2) =
                (case stockData of
                   None \<Rightarrow> (n\<lparr>errorCount := errorCount n + 1\<rparr>, w1)
                 | Some rows \<Rightarrow>
                     if rows \<noteq> [] then
                       (case saveToCsv P rows True w1 of
                          Inr w' \<Rightarrow> (n\<lparr>totalRows := totalRows n + length rows,
                                        successCount := successCount n + 1\<rparr>, w')
                        | Inl e \<Rightarrow> (n\<lparr>errorCount := errorCount n + 1\<rparr>, w1))
                     else (n\<lparr>errorCount := errorCount n + 1\<rparr>, w1));
              w3 = (if rest \<noteq> [] then sleep perRequestDelayMs w2 else w2)
          in fetch_loop P A rest n2 w3)"

definition fetchAllStockData :: "platform \<Rightarrow> agent \<Rightarrow> world \<Rightarrow> ((error + counters) \<times> world) option" where
  "fetchAllStockData P A w =
     (if \<not> str_truthy (ALPHA_VANTAGE_API_KEY P) then Some (Inl ConfigurationError, w)
      else case fetch_loop P A (companies A) \<lparr>successCount = 0, errorCount = 0, totalRows = 0\<rparr> w of
             None \<Rightarrow> None
           | Some (n, w1) \<Rightarrow> Some (Inr n, updateLastUpdateTime A w1))"

section \<open>The period table of the specification\<close>



section \<open>A concrete platform for examples\<close>

text \<open>An instance of the platform on which the theorems are tried: dates in the form
  \<^verbatim>\<open>YYYY-MM-DD\<close> are parsed as JavaScript parses them (midnight UTC, in milliseconds;
  anything else is no date here), numbers are read as decimal integers.\<close>

definition days_from_civil :: "int \<Rightarrow> int \<Rightarrow> int \<Rightarrow> int" where
  "days_from_civil y m d =
     (let y' = (if m \<le> 2 then y - 1 else y);
          era = y' div 400;
          yoe = y' - era * 400;
          doy = (153 * (if m > 2 then m - 3 else m + 9) + 2) div 5 + d - 1;
          doe = yoe * 365 + yoe div 4 - yoe div 100 + doy
      in era * 146097 + doe - 719468)"

definition days_in_month :: "int \<Rightarrow> int \<Rightarrow> int" where
  "days_in_month y m =
     (if m = 2 then (if y mod 4 = 0 \<and> (y mod 100 \<noteq> 0 \<or> y mod 400 = 0) then 29 else 28)
      else if m = 4 \<or> m = 6 \<or> m = 9 \<or> m = 11 then 30 else 31)"

definition iso_date_parse :: "string \<Rightarrow> jsnum" where
  "iso_date_parse s =
     (if length s = 10 \<and> s ! 4 = CHR ''-'' \<and> s ! 7 = CHR ''-''
         \<and> list_all is_digit (take 4 s @ take 2 (drop 5 s) @ drop 8 s)
      then let y = int (digits_value (take 4 s));
               m = int (digits_value (take 2 (drop 5 s)));
               d = int (digits_value (drop 8 s))
           in if 1 \<le> m \<and> m \<le> 12 \<and> 1 \<le> d \<and> d \<le> days_in_month y m
              then Num (real_of_int (days_from_civil y m d * 86400000)) else NaN
      else NaN)"

text \<open>The first ten characters of \<^verbatim>\<open>toISOString()\<close> for a time value in the years 0 to
  9999 (empty outside, where JavaScript writes a signed six-digit year).\<close>

definition pad2 :: "int \<Rightarrow> string" where
  "pad2 n = [char_of (48 + n div 10), char_of (48 + n mod 10)]"

definition iso_date_string :: "real \<Rightarrow> string" where
  "iso_date_string t =
     (let z = \<lfloor>t / 86400000\<rfloor> + 719468;
          era = z div 146097;
          doe = z - era * 146097;
          yoe = (doe - doe div 1460 + doe div 36524 - doe div 146096) div 365;
          doy = doe - (365 * yoe + yoe div 4 - yoe div 100);
          mp = (5 * doy + 2) div 153;
          d = doy - (153 * mp + 2) div 5 + 1;
          m = (if mp < 10 then mp + 3 else mp - 9);
          y = yoe + era * 400 + (if m \<le> 2 then 1 else 0)
      in if 0 \<le> y \<and> y \<le> 9999
         then pad2 (y div 100) @ pad2 (y mod 100) @ ''-'' @ pad2 m @ ''-'' @ pad2 d
         else [])"

definition demo_platform :: platform where
  "demo_platform =
     \<lparr>str_parseFloat = parseInt10, str_parseInt = parseInt10, num_parseInt = (\<lambda>x. x),
      date_parse = iso_date_parse, date_iso = iso_date_string,
      csv_record = (\<lambda>r. date r @ '','' @ symbol r),
      ALPHA_VANTAGE_API_KEY = Some ''demo'', STOCK_MAX_RETRIES = None,
      STOCK_FETCH_DELAY_MS = None,
      alpha_api = (\<lambda>k s. HttpError), yahoo_api = (\<lambda>k s r. HttpError)\<rparr>"

definition demo_world :: "string option \<Rightarrow> world" where
  "demo_world content =
     \<lparr>dir_exists = True, csv_file = content, meta_file = None, mkdir_ok = True,
      csv_write_ok = True, meta_write_ok = True, clock = 0, http_count = 0, trace = []\<rparr>"

definition demo_csv :: string where
  "demo_csv = csv_header @
     ''\<newline>2024-01-03,AAPL,Apple,Tech,3,3,3,3,9,3,0,0'' @
     ''\<newline>2024-01-02,MSFT,Microsoft,Tech,7,7,7,7,9,7,0,0'' @
     ''\<newline>2024-01-08,AAPL,Apple,Tech,8,8,8,8,9,8,0,0'' @
     ''\<newline>2024-01-02,AAPL,Apple,Tech,2,2,2,2,9,2,0,0\<newline>''"


section \<open>Providers used in the examples\<close>

text \<open>The premise of the retry bound: whatever the number of requests sent before, the
  primary provider answers this symbol with a note or an error message.\<close>

definition rate_limited :: "platform \<Rightarrow> string \<Rightarrow> bool" where
  "rate_limited P symb =
     (\<forall>k. \<exists>d. alpha_api P k symb = HttpOk d \<and> (str_truthy (Note d) \<or> str_truthy (Error_Message d)))"

definition limit_note :: alpha_data where
  "limit_note = \<lparr>Note = Some ''API call frequency exceeded'', Error_Message = None,
                  Time_Series_Daily = None\<rparr>"

text \<open>A primary provider that always answers with the rate-limit note, with the default
  retry budget and with \<^verbatim>\<open>STOCK_MAX_RETRIES=0\<close>.\<close>

definition limited_platform :: platform where
  "limited_platform = demo_platform\<lparr>alpha_api := (\<lambda>k s. HttpOk limit_note)\<rparr>"

definition no_retry_platform :: platform where
  "no_retry_platform = limited_platform\<lparr>STOCK_MAX_RETRIES := Some ''0''\<rparr>"

text \<open>The files and the file system's answers are the same in two worlds.\<close>

definition same_store :: "world \<Rightarrow> world \<Rightarrow> bool" where
  "same_store w w' =
     (dir_exists w' = dir_exists w \<and> csv_file w' = csv_file w \<and> meta_file w' = meta_file w \<and>
      mkdir_ok w' = mkdir_ok w \<and> csv_write_ok w' = csv_write_ok w \<and>
      meta_write_ok w' = meta_write_ok w)"

text \<open>The outcome of the primary call after which the code turns to Yahoo by its two
  documented paths: the call threw, or its payload has no \<^verbatim>\<open>Time Series (Daily)\<close>.\<close>

definition primary_without_series :: "error + alpha_data \<Rightarrow> bool" where
  "primary_without_series r = (case r of Inl e \<Rightarrow> True | Inr daily \<Rightarrow> Time_Series_Daily daily = None)"

definition perRequestDelayMs :: "platform \<Rightarrow> jsnum" where
  "perRequestDelayMs P = parseInt10 (env_or (STOCK_FETCH_DELAY_MS P) ''15000'')"

definition demo_company :: company where
  "demo_company = \<lparr>symbol = ''AAPL'', name = ''Apple Inc.'', sector = ''Technology''\<rparr>"

definition demo_agent :: agent where
  "demo_agent = \<lparr>companies = [demo_company], days = Num 30\<rparr>"

definition no_counts :: counters where
  "no_counts = \<lparr>successCount = 0, errorCount = 0, totalRows = 0\<rparr>"

text \<open>A primary provider whose payload has no time series (and no note), and a Yahoo
  chart of one day.\<close>

definition empty_payload :: alpha_data where
  "empty_payload = \<lparr>Note = None, Error_Message = None, Time_Series_Daily = None\<rparr>"

definition demo_chart :: yahoo_result where
  "demo_chart =
     \<lparr>timestamp = Some [Some (Num 1704153600)],
      indicators_quote = Some [Some \<lparr>q_open = Some [Some (Num 10)], q_high = Some [None],
                                     q_low = Some [Some (Num 9)], q_close = Some [Some (Num 11)],
                                     q_volume = Some [Some (Num 100)]\<rparr>]\<rparr>"

definition fallback_platform :: platform where
  "fallback_platform = demo_platform\<lparr>alpha_api := (\<lambda>k s. HttpOk empty_payload),
                                     yahoo_api := (\<lambda>k s r. HttpOk (Some demo_chart))\<rparr>"

text \<open>Everything but the table, the clock and the trace is the same in two worlds.\<close>

definition same_flags :: "world \<Rightarrow> world \<Rightarrow> bool" where
  "same_flags w w' =
     (dir_exists w' = dir_exists w \<and> meta_file w' = meta_file w \<and> mkdir_ok w' = mkdir_ok w \<and>
      csv_write_ok w' = csv_write_ok w \<and> meta_write_ok w' = meta_write_ok w)"

text \<open>The test \<^verbatim>\<open>stockData && stockData.length\<close> of the loop, together with a file system
  that takes the append: the case in which the rows of a symbol reach the table.\<close>

definition appendable :: "world \<Rightarrow> price_row list option \<Rightarrow> bool" where
  "appendable w stockData =
     (case stockData of None \<Rightarrow> False | Some rows \<Rightarrow> rows \<noteq> [] \<and> dir_exists w \<and> csv_write_ok w)"

definition throttle :: "platform \<Rightarrow> company list \<Rightarrow> world \<Rightarrow> world" where
  "throttle P rest w = (if rest \<noteq> [] then sleep (perRequestDelayMs P) w else w)"

text \<open>A Yahoo chart whose only day has no open price (Yahoo sends \<^verbatim>\<open>null\<close> for a day
  without trades), behind a primary provider without a time series.\<close>

definition null_chart :: yahoo_result where
  "null_chart =
     \<lparr>timestamp = Some [Some (Num 1704153600)],
      indicators_quote = Some [Some \<lparr>q_open = Some [None], q_high = Some [None],
                                     q_low = Some [None], q_close = Some [None],
                                     q_volume = Some [None]\<rparr>]\<rparr>"

definition null_chart_platform :: platform where
  "null_chart_platform = demo_platform\<lparr>alpha_api := (\<lambda>k s. HttpOk empty_payload),
                                       yahoo_api := (\<lambda>k s r. HttpOk (Some null_chart))\<rparr>"

text \<open>The row that \<open>demo_chart\<close> gives: its missing high is the close.\<close>

definition demo_row :: price_row where
  "demo_row = \<lparr>symbol = ''AAPL'', name = ''AAPL'', sector = ''Unknown'', date = ''2024-01-02'',
                open_price = Num 10, high = Num 11, low = Num 9, close = Num 11,
                volume = Num 100, adjustedClose = Num 11, priceChange = Num 1,
                priceChangePercent = Num 10\<rparr>"

definition two_column_table :: world where
  "two_column_table = demo_world (Some ''Date,Symbol\<newline>'')"

text \<open>A world with the table \<open>demo_csv\<close> (four rows) at some time of day, and the same
  world with a metadata file from an earlier run that the file system no longer lets the
  agent write.\<close>

definition stored_world :: world where
  "stored_world = (demo_world (Some demo_csv))\<lparr>clock := 1704800000000\<rparr>"

definition old_info :: update_info where
  "old_info = \<lparr>lastUpdate = Num 1704700000000, totalCompanies = 1, dataPoints = 3\<rparr>"

definition readonly_meta_world :: world where
  "readonly_meta_world = stored_world\<lparr>meta_file := Some (MetaObj old_info), meta_write_ok := False\<rparr>"

text \<open>The percentage \<^verbatim>\<open>(close - open) / open * 100\<close> of a row, computed without the
  guard.\<close>

definition percent_formula :: "price_row \<Rightarrow> jsnum" where
  "percent_formula r = js_mul (js_div (js_sub (close r) (open_price r)) (open_price r)) (Num 100)"

text \<open>A daily series of the primary provider: a day that opened at 0, an ordinary day,
  and a day whose entry has no \<^verbatim>\<open>1. open\<close> field.\<close>

definition demo_series :: "(string \<times> alpha_entry option) list" where
  "demo_series =
     [(''2024-01-03'', Some [''1. open'' \<mapsto> ''10'', ''2. high'' \<mapsto> ''12'', ''3. low'' \<mapsto> ''9'',
                            ''4. close'' \<mapsto> ''11'', ''5. adjusted close'' \<mapsto> ''11'',
                            ''6. volume'' \<mapsto> ''100'']),
      (''2024-01-02'', Some [''1. open'' \<mapsto> ''0'', ''2. high'' \<mapsto> ''12'', ''3. low'' \<mapsto> ''0'',
                            ''4. close'' \<mapsto> ''11'', ''5. adjusted close'' \<mapsto> ''11'',
                            ''6. volume'' \<mapsto> ''100''])]"

definition zero_open_row :: price_row where
  "zero_open_row = \<lparr>symbol = ''AAPL'', name = ''Apple Inc.'', sector = ''Technology'',
                     date = ''2024-01-02'', open_price = Num 0, high = Num 12, low = Num 0,
                     close = Num 11, volume = Num 100, adjustedClose = Num 11,
                     priceChange = Num 11, priceChangePercent = Num 0\<rparr>"

definition ordinary_row :: price_row where
  "ordinary_row = \<lparr>symbol = ''AAPL'', name = ''Apple Inc.'', sector = ''Technology'',
                    date = ''2024-01-03'', open_price = Num 10, high = Num 12, low = Num 9,
                    close = Num 11, volume = Num 100, adjustedClose = Num 11,
                    priceChange = Num 1, priceChangePercent = Num 10\<rparr>"

definition no_open_series :: "(string \<times> alpha_entry option) list" where
  "no_open_series =
     [(''2024-01-02'', Some [''2. high'' \<mapsto> ''12'', ''3. low'' \<mapsto> ''9'', ''4. close'' \<mapsto> ''11'',
                            ''5. adjusted close'' \<mapsto> ''11'', ''6. volume'' \<mapsto> ''100''])]"

text \<open>A Yahoo chart whose open price is the JSON number \<^verbatim>\<open>1e999\<close>, which \<^verbatim>\<open>JSON.parse\<close>
  reads as \<^verbatim>\<open>Infinity\<close>.\<close>

definition infinite_chart :: yahoo_result where
  "infinite_chart =
     \<lparr>timestamp = Some [Some (Num 1704153600)],
      indicators_quote = Some [Some \<lparr>q_open = Some [Some PInf], q_high = Some [None],
                                     q_low = Some [None], q_close = Some [Some (Num 11)],
                                     q_volume = Some [Some (Num 100)]\<rparr>]\<rparr>"

definition infinite_chart_platform :: platform where
  "infinite_chart_platform = demo_platform\<lparr>yahoo_api := (\<lambda>k s r. HttpOk (Some infinite_chart))\<rparr>"

section \<open>Properties\<close>

subsection \<open>Sorting and the period window\<close>


lemma length_js_insert [simp]: "length (js_insert cmp x ys) = Suc (length ys)"
  by (induction ys) simp_all

lemma set_js_insert [simp]: "set (js_insert cmp x ys) = insert x (set ys)"
  by (induction ys) auto

lemma length_js_sort [simp]: "length (js_sort cmp xs) = length xs"
  by (induction xs) (simp_all add: js_sort_def)

lemma set_js_sort [simp]: "set (js_sort cmp xs) = set xs"
  by (induction xs) (simp_all add: js_sort_def)

lemma js_sort_Nil_iff [simp]: "js_sort cmp xs = [] \<longleftrightarrow> xs = []"
  using length_js_sort [of cmp xs] by (metis length_0_conv)








lemma h_date_history_of_row [simp]: "h_date (history_of_row P r) = row_date P r"
  by (simp add: history_of_row_def)






subsection \<open>The retry bound of \<^verbatim>\<open>callAlpha\<close>\<close>

lemma timer_delay_nat:
  "1 \<le> n \<Longrightarrow> n \<le> 2147483647 \<Longrightarrow> timer_delay (Num (real n)) = int n"
  unfolding timer_delay_def trunc_def by (simp del: of_nat_mult)

lemma timer_delay_backoff:
  assumes "1 \<le> a"
  shows "timer_delay (Num (real (min (60 * a) 180 * 1000))) = 1000 * int (min (60 * a) 180)"
proof -
  have "1 \<le> min (60 * a) 180 * 1000" "min (60 * a) 180 * 1000 \<le> 2147483647"
    using assms by (simp_all add: min_def)
  then show ?thesis
    by (simp only: timer_delay_nat)
qed

lemma callAlpha_exhausts_from:
  assumes lim: "rate_limited P symb"
    and mx: "parseInt10 (env_or (STOCK_MAX_RETRIES P) ''5'') = Num (real_of_int m)"
  shows "k = nat (m - int a) \<Longrightarrow> 1 \<le> a \<Longrightarrow>
     \<exists>w' d. callAlpha P symb a w = Some (Inl (ProviderExhausted (alpha_message d)), w') \<and>
        alpha_api P (http_count w + k) symb = HttpOk d \<and>
        http_count w' = http_count w + k + 1 \<and>
        clock w' = clock w + 1000 * (\<Sum>i = a..<a + k. int (min (60 * i) 180)) \<and>
        trace w' = trace w
           @ concat (map (\<lambda>i. [AlphaGet symb i, Sleep (Num (real (min (60 * i) 180 * 1000)))]) [a..<a + k])
           @ [AlphaGet symb (a + k)] \<and>
        csv_file w' = csv_file w \<and> meta_file w' = meta_file w"
proof (induction k arbitrary: a w)
  case 0
  obtain d where d: "alpha_api P (http_count w) symb = HttpOk d"
    and soft: "str_truthy (Note d) \<or> str_truthy (Error_Message d)"
    using lim unfolding rate_limited_def by blast
  have ge: "js_le (Num (real_of_int m)) (Num (real a))"
    using 0 by auto
  show ?case
    apply (subst callAlpha.simps)
    using d soft ge by (auto simp: mx Let_def)
next
  case (Suc k)
  obtain d where d: "alpha_api P (http_count w) symb = HttpOk d"
    and soft: "str_truthy (Note d) \<or> str_truthy (Error_Message d)"
    using lim unfolding rate_limited_def by blast
  have lt: "\<not> js_le (Num (real_of_int m)) (Num (real a))"
    using Suc.prems by auto
  define w1 where "w1 = sleep (Num (real (min (60 * a) 180 * 1000)))
       (w\<lparr>http_count := Suc (http_count w), trace := trace w @ [AlphaGet symb a]\<rparr>)"
  have step: "callAlpha P symb a w = callAlpha P symb (a + 1) w1"
    apply (subst callAlpha.simps)
    using d soft lt by (simp add: mx Let_def w1_def)
  have k: "k = nat (m - int (a + 1))" using Suc.prems by auto
  obtain w' d' where r: "callAlpha P symb (a + 1) w1 = Some (Inl (ProviderExhausted (alpha_message d')), w')"
    and 1: "alpha_api P (http_count w1 + k) symb = HttpOk d'"
    and 2: "http_count w' = http_count w1 + k + 1"
    and 3: "clock w' = clock w1 + 1000 * (\<Sum>i = a + 1..<a + 1 + k. int (min (60 * i) 180))"
    and 4: "trace w' = trace w1
           @ concat (map (\<lambda>i. [AlphaGet symb i, Sleep (Num (real (min (60 * i) 180 * 1000)))]) [a + 1..<a + 1 + k])
           @ [AlphaGet symb (a + 1 + k)]"
    and 5: "csv_file w' = csv_file w1" "meta_file w' = meta_file w1"
    using Suc.IH [OF k, of w1] by auto
  have w1: "http_count w1 = Suc (http_count w)"
    "clock w1 = clock w + 1000 * int (min (60 * a) 180)"
    "trace w1 = trace w @ [AlphaGet symb a, Sleep (Num (real (min (60 * a) 180 * 1000)))]"
    "csv_file w1 = csv_file w" "meta_file w1 = meta_file w"
    unfolding w1_def sleep_def timer_delay_backoff [OF Suc.prems(2)] by simp_all
  have sum: "(\<Sum>i = a..<a + Suc k. int (min (60 * i) 180))
       = int (min (60 * a) 180) + (\<Sum>i = a + 1..<a + 1 + k. int (min (60 * i) 180))"
    by (simp add: sum.atLeast_Suc_lessThan)
  have upt: "[a..<a + Suc k] = a # [a + 1..<a + 1 + k]"
    by (simp add: upt_conv_Cons)
  show ?case
    unfolding step r
    apply (intro exI [of _ w'] exI [of _ d'])
    using 1 2 3 4 5 w1 unfolding sum upt by (simp add: algebra_simps)
qed


text \<open>Without a bound that is a number the helper does not stop: with
  \<^verbatim>\<open>STOCK_MAX_RETRIES\<close> set to a string that \<^verbatim>\<open>parseInt\<close> reads as \<^verbatim>\<open>NaN\<close>, the test
  \<^verbatim>\<open>attempt >= maxAttempts\<close> is never true.\<close>

lemma callAlpha_never_returns:
  assumes lim: "rate_limited P symb"
    and mx: "parseInt10 (env_or (STOCK_MAX_RETRIES P) ''5'') = NaN"
  shows "callAlpha P symb a w = None"
proof (rule ccontr)
  assume "callAlpha P symb a w \<noteq> None"
  then obtain y where y: "callAlpha P symb a w = Some y" by auto
  have "(\<lambda>x y. \<not> (fst (fst (fst x)) = P \<and> snd (fst (fst x)) = symb)) (((P, symb), a), w) y"
  proof (rule callAlpha.raw_induct [OF _ y])
    fix f :: "platform \<Rightarrow> string \<Rightarrow> nat \<Rightarrow> world \<Rightarrow> ((error + alpha_data) \<times> world) option"
      and P' :: platform and s' :: string and a' :: nat and w' :: world
      and y' :: "(error + alpha_data) \<times> world"
    assume IH: "\<And>P'' s'' a'' w'' y''. f P'' s'' a'' w'' = Some y'' \<Longrightarrow>
                  \<not> (fst (fst (fst (((P'', s''), a''), w''))) = P \<and> snd (fst (fst (((P'', s''), a''), w''))) = symb)"
      and body: "(let maxAttempts = parseInt10 (env_or (STOCK_MAX_RETRIES P') ''5'');
          backoffSec = min (60 * a') 180;
          w1 = w'\<lparr>http_count := Suc (http_count w'), trace := trace w' @ [AlphaGet s' a']\<rparr>
      in case alpha_api P' (http_count w') s' of
         HttpError \<Rightarrow> Some (Inl TransportError, w1)
         | HttpOk data \<Rightarrow>
             if str_truthy (Note data) \<or> str_truthy (Error_Message data)
             then if js_le maxAttempts (Num (real a'))
                  then Some (Inl (ProviderExhausted (alpha_message data)), w1)
                  else f P' s' (a' + 1) (sleep (Num (real (backoffSec * 1000))) w1)
             else Some (Inr data, w1)) = Some y'"
    show "\<not> (fst (fst (fst (((P', s'), a'), w'))) = P \<and> snd (fst (fst (((P', s'), a'), w'))) = symb)"
    proof
      assume "fst (fst (fst (((P', s'), a'), w'))) = P \<and> snd (fst (fst (((P', s'), a'), w'))) = symb"
      then have eq: "P' = P" "s' = symb" by simp_all
      obtain d where d: "alpha_api P (http_count w') symb = HttpOk d"
        and soft: "str_truthy (Note d) \<or> str_truthy (Error_Message d)"
        using lim unfolding rate_limited_def by blast
      from body eq d soft mx
      have "f P symb (a' + 1) (sleep (Num (real (min (60 * a') 180 * 1000)))
              (w'\<lparr>http_count := Suc (http_count w'), trace := trace w' @ [AlphaGet symb a']\<rparr>)) = Some y'"
        by (simp add: Let_def)
      from IH [OF this] show False by simp
    qed
  qed
  then show False by simp
qed

lemma parseInt10_default_retries: "parseInt10 (env_or None ''5'') = Num 5"
  by (simp add: parseInt10_def env_or_def is_ws_def is_digit_def digits_value_def)

text \<open>
  Claim C2, as the code has it. Let every response of the primary provider for the symbol
  carry a note or an error message, and let \<^verbatim>\<open>STOCK_MAX_RETRIES\<close> (default \<^verbatim>\<open>5\<close>) parse to
  the integer \<open>m\<close>. Then \<^verbatim>\<open>callAlpha\<close> returns by throwing the provider's message
  (\<open>ProviderExhausted\<close>) after exactly \<open>max 1 m\<close> requests, and between them it slept
  \<open>min (60 i) 180\<close> seconds after attempt \<open>i\<close>, for \<open>i\<close> from 1 to \<open>max 1 m - 1\<close>: the
  clock has advanced by their sum. For \<open>m \<ge> 1\<close> this is the claim; for \<open>m \<le> 0\<close> one request
  is still sent.
\<close>

theorem callAlpha_retry_bound:
  assumes "rate_limited P symb"
    and "parseInt10 (env_or (STOCK_MAX_RETRIES P) ''5'') = Num (real_of_int m)"
  shows "\<exists>w' d. callAlpha P symb 1 w = Some (Inl (ProviderExhausted (alpha_message d)), w') \<and>
        alpha_api P (http_count w + nat (max 1 m) - 1) symb = HttpOk d \<and>
        http_count w' = http_count w + nat (max 1 m) \<and>
        clock w' = clock w + 1000 * (\<Sum>i = 1..<nat (max 1 m). int (min (60 * i) 180)) \<and>
        trace w' = trace w
           @ concat (map (\<lambda>i. [AlphaGet symb i, Sleep (Num (real (min (60 * i) 180 * 1000)))])
                         [1..<nat (max 1 m)])
           @ [AlphaGet symb (nat (max 1 m))]"
proof -
  have k: "nat (max 1 m) = 1 + nat (m - int 1)"
    by simp
  obtain w' d where
    "callAlpha P symb 1 w = Some (Inl (ProviderExhausted (alpha_message d)), w')"
    "alpha_api P (http_count w + nat (m - int 1)) symb = HttpOk d"
    "http_count w' = http_count w + nat (m - int 1) + 1"
    "clock w' = clock w + 1000 * (\<Sum>i = 1..<1 + nat (m - int 1). int (min (60 * i) 180))"
    "trace w' = trace w
       @ concat (map (\<lambda>i. [AlphaGet symb i, Sleep (Num (real (min (60 * i) 180 * 1000)))])
                     [1..<1 + nat (m - int 1)])
       @ [AlphaGet symb (1 + nat (m - int 1))]"
    using callAlpha_exhausts_from [OF assms refl, of 1 w] by auto
  then show ?thesis
    unfolding k by (intro exI [of _ w'] exI [of _ d]) simp
qed

text \<open>The default budget: five requests, \<open>60 + 120 + 180 + 180\<close> seconds of sleep.\<close>

theorem callAlpha_retry_bound_witness:
  "rate_limited limited_platform ''AAPL'' \<and>
   parseInt10 (env_or (STOCK_MAX_RETRIES limited_platform) ''5'') = Num (real_of_int 5) \<and>
   map_option (\<lambda>(r, w'). (r, http_count w', clock w')) (callAlpha limited_platform ''AAPL'' 1 (demo_world None))
     = Some (Inl (ProviderExhausted ''API call frequency exceeded''), 5, 540000)"
proof -
  have lim: "rate_limited limited_platform ''AAPL''"
    by (simp add: rate_limited_def limited_platform_def limit_note_def str_truthy_def)
  have mx: "parseInt10 (env_or (STOCK_MAX_RETRIES limited_platform) ''5'') = Num (real_of_int 5)"
    using parseInt10_default_retries by (simp add: limited_platform_def demo_platform_def)
  have sum: "(\<Sum>i = 1..<nat (max 1 5). int (min (60 * i) 180)) = 540"
    by (simp add: eval_nat_numeral)
  obtain w' d where r: "callAlpha limited_platform ''AAPL'' 1 (demo_world None)
        = Some (Inl (ProviderExhausted (alpha_message d)), w')"
    and d: "alpha_api limited_platform (http_count (demo_world None) + nat (max 1 5) - 1) ''AAPL'' = HttpOk d"
    and n: "http_count w' = http_count (demo_world None) + nat (max 1 5)"
    and c: "clock w' = clock (demo_world None) + 1000 * (\<Sum>i = 1..<nat (max 1 5). int (min (60 * i) 180))"
    using callAlpha_retry_bound [OF lim mx, of "demo_world None"] by blast
  have "d = limit_note"
    using d by (simp add: limited_platform_def)
  then have msg: "alpha_message d = ''API call frequency exceeded''"
    by (simp add: alpha_message_def limit_note_def str_truthy_def)
  show ?thesis
    unfolding r msg using lim mx n c sum by (simp add: demo_world_def)
qed

text \<open>Claim C2 as stated fails for \<^verbatim>\<open>STOCK_MAX_RETRIES=0\<close>: \<^verbatim>\<open>maxAttempts\<close> is 0, and one
  request is sent before the helper throws.\<close>

theorem callAlpha_retry_bound_counterexample:
  "rate_limited no_retry_platform ''AAPL'' \<and>
   parseInt10 (env_or (STOCK_MAX_RETRIES no_retry_platform) ''5'') = Num 0 \<and>
   map_option (\<lambda>(r, w'). (r, http_count w', clock w')) (callAlpha no_retry_platform ''AAPL'' 1 (demo_world None))
     = Some (Inl (ProviderExhausted ''API call frequency exceeded''), 1, 0)"
proof -
  have lim: "rate_limited no_retry_platform ''AAPL''"
    by (simp add: rate_limited_def no_retry_platform_def limited_platform_def limit_note_def str_truthy_def)
  have mx: "parseInt10 (env_or (STOCK_MAX_RETRIES no_retry_platform) ''5'') = Num 0"
    by (simp add: no_retry_platform_def parseInt10_def env_or_def is_ws_def is_digit_def digits_value_def)
  have "callAlpha no_retry_platform ''AAPL'' 1 (demo_world None)
          = Some (Inl (ProviderExhausted ''API call frequency exceeded''),
                  (demo_world None)\<lparr>http_count := 1, trace := [AlphaGet ''AAPL'' 1]\<rparr>)"
    apply (subst callAlpha.simps)
    apply (simp add: mx Let_def)
    apply (simp add: no_retry_platform_def limited_platform_def limit_note_def str_truthy_def
        alpha_message_def demo_world_def)
    done
  then show ?thesis
    using lim mx by (simp only:) (simp add: demo_world_def)
qed

subsection \<open>What the requests leave unchanged, and when they return\<close>

lemma same_store_refl [simp]: "same_store w w"
  by (simp add: same_store_def)

lemma same_store_trans: "same_store a b \<Longrightarrow> same_store b c \<Longrightarrow> same_store a c"
  by (simp add: same_store_def)

lemma same_store_sleep [simp]: "same_store w (sleep d w)"
  by (simp add: same_store_def sleep_def)

lemma callAlpha_frame:
  assumes "callAlpha P symb a w = Some (r, w1)"
  shows "same_store w w1 \<and> (\<exists>rest. trace w1 = trace w @ AlphaGet symb a # rest)"
proof -
  have "(\<lambda>x y. same_store (snd x) (snd y) \<and>
               (\<exists>rest. trace (snd y) = trace (snd x) @ AlphaGet (snd (fst (fst x))) (snd (fst x)) # rest))
          (((P, symb), a), w) (r, w1)"
  proof (rule callAlpha.raw_induct [OF _ assms])
    fix f :: "platform \<Rightarrow> string \<Rightarrow> nat \<Rightarrow> world \<Rightarrow> ((error + alpha_data) \<times> world) option"
      and P' :: platform and s' :: string and a' :: nat and w' :: world
      and y' :: "(error + alpha_data) \<times> world"
    assume IH: "\<And>P'' s'' a'' w'' y''. f P'' s'' a'' w'' = Some y'' \<Longrightarrow>
                  same_store (snd (((P'', s''), a''), w'')) (snd y'') \<and>
                  (\<exists>rest. trace (snd y'') = trace (snd (((P'', s''), a''), w''))
                       @ AlphaGet (snd (fst (fst (((P'', s''), a''), w'')))) (snd (fst (((P'', s''), a''), w''))) # rest)"
      and body: "(let maxAttempts = parseInt10 (env_or (STOCK_MAX_RETRIES P') ''5'');
          backoffSec = min (60 * a') 180;
          w1 = w'\<lparr>http_count := Suc (http_count w'), trace := trace w' @ [AlphaGet s' a']\<rparr>
      in case alpha_api P' (http_count w') s' of
         HttpError \<Rightarrow> Some (Inl TransportError, w1)
         | HttpOk data \<Rightarrow>
             if str_truthy (Note data) \<or> str_truthy (Error_Message data)
             then if js_le maxAttempts (Num (real a'))
                  then Some (Inl (ProviderExhausted (alpha_message data)), w1)
                  else f P' s' (a' + 1) (sleep (Num (real (backoffSec * 1000))) w1)
             else Some (Inr data, w1)) = Some y'"
    define w1' where "w1' = w'\<lparr>http_count := Suc (http_count w'), trace := trace w' @ [AlphaGet s' a']\<rparr>"
    have base: "same_store w' w1'" "trace w1' = trace w' @ AlphaGet s' a' # []"
      by (simp_all add: w1'_def same_store_def)
    consider (stop) "y' = (fst y', w1')"
      | (again) "f P' s' (a' + 1) (sleep (Num (real (min (60 * a') 180 * 1000))) w1') = Some y'"
      using body unfolding Let_def w1'_def [symmetric]
      by (auto split: http.splits if_splits)
    then show "same_store (snd (((P', s'), a'), w')) (snd y') \<and>
          (\<exists>rest. trace (snd y') = trace (snd (((P', s'), a'), w'))
              @ AlphaGet (snd (fst (fst (((P', s'), a'), w')))) (snd (fst (((P', s'), a'), w'))) # rest)"
    proof cases
      case stop
      then have "snd y' = w1'" by (metis snd_conv)
      then show ?thesis using base by simp
    next
      case again
      from IH [OF again]
      have 1: "same_store (sleep (Num (real (min (60 * a') 180 * 1000))) w1') (snd y')"
        and 2: "\<exists>rest. trace (snd y') = trace (sleep (Num (real (min (60 * a') 180 * 1000))) w1')
                  @ AlphaGet s' (a' + 1) # rest"
        by simp_all
      have "same_store w' (snd y')"
        using base(1) 1 by (simp add: same_store_def sleep_def)
      moreover have "\<exists>rest. trace (snd y') = trace w' @ AlphaGet s' a' # rest"
        using 2 base(2) by (auto simp: sleep_def)
      ultimately show ?thesis by simp
    qed
  qed
  then show ?thesis by simp
qed

lemma fetchFromYahoo_frame:
  assumes "fetchFromYahoo P A symb w = (y, w2)"
  shows "same_store w w2 \<and> trace w2 = trace w @ [YahooGet symb (yahoo_range A)] \<and> clock w2 = clock w"
  using assms
  by (auto simp: fetchFromYahoo_def yahoo_range_def same_store_def Let_def
      split: http.splits option.splits)

lemma parseInt10_cases: "parseInt10 s = NaN \<or> (\<exists>m. parseInt10 s = Num (real_of_int m))"
proof -
  define t where "t = dropWhile is_ws s"
  define neg where "neg = (case t of [] \<Rightarrow> False | c # _ \<Rightarrow> c = CHR ''-'')"
  define ds where "ds = takeWhile is_digit
      (case t of [] \<Rightarrow> [] | c # r \<Rightarrow> if c = CHR ''-'' \<or> c = CHR ''+'' then r else t)"
  have eq: "parseInt10 s =
      (if ds = [] then NaN else Num (if neg then - real (digits_value ds) else real (digits_value ds)))"
    unfolding parseInt10_def Let_def ds_def neg_def t_def by (rule refl)
  show ?thesis
  proof (cases "ds = []")
    case True
    then show ?thesis by (simp add: eq)
  next
    case False
    show ?thesis
    proof (cases neg)
      case True
      have "parseInt10 s = Num (real_of_int (- int (digits_value ds)))"
        using False True by (simp add: eq)
      then show ?thesis by blast
    next
      case neg: False
      have "parseInt10 s = Num (real_of_int (int (digits_value ds)))"
        using False neg by (simp add: eq)
      then show ?thesis by blast
    qed
  qed
qed

lemma callAlpha_returns_aux:
  assumes mx: "parseInt10 (env_or (STOCK_MAX_RETRIES P) ''5'') = Num (real_of_int m)"
  shows "k = nat (m - int a) \<Longrightarrow> \<exists>y. callAlpha P symb a w = Some y"
proof (induction k arbitrary: a w)
  case 0
  then have ge: "js_le (Num (real_of_int m)) (Num (real a))" by auto
  show ?case
    apply (subst callAlpha.simps)
    using ge by (auto simp: mx Let_def split: http.splits)
next
  case (Suc k)
  then have k: "k = nat (m - int (a + 1))" by auto
  show ?case
    apply (subst callAlpha.simps)
    using Suc.IH [OF k] by (auto simp: mx Let_def split: http.splits)
qed

lemma callAlpha_returns:
  assumes "parseInt10 (env_or (STOCK_MAX_RETRIES P) ''5'') \<noteq> NaN"
  shows "\<exists>r w1. callAlpha P symb a w = Some (r, w1)"
proof -
  obtain m where "parseInt10 (env_or (STOCK_MAX_RETRIES P) ''5'') = Num (real_of_int m)"
    using assms parseInt10_cases by blast
  from callAlpha_returns_aux [OF this refl, of symb a w] show ?thesis by auto
qed

lemma fetchCompanyData_returns:
  assumes "parseInt10 (env_or (STOCK_MAX_RETRIES P) ''5'') \<noteq> NaN"
  shows "\<exists>rows w2. fetchCompanyData P A c w = Some (rows, w2)"
proof -
  obtain r w1 where "callAlpha P (symbol c) 1 w = Some (r, w1)"
    using callAlpha_returns [OF assms] by blast
  then show ?thesis
    unfolding fetchCompanyData_def
    by (cases "fetchFromYahoo P A (symbol c) w1") (auto split: sum.splits option.splits)
qed

lemma fetchCompanyData_frame:
  assumes "fetchCompanyData P A c w = Some (rows, w2)"
  shows "same_store w w2 \<and> (\<exists>rest. trace w2 = trace w @ AlphaGet (symbol c) 1 # rest)"
proof -
  obtain r w1 where ca: "callAlpha P (symbol c) 1 w = Some (r, w1)"
    using assms unfolding fetchCompanyData_def by (auto split: option.splits)
  from callAlpha_frame [OF ca] obtain rest where
    f1: "same_store w w1" and t1: "trace w1 = trace w @ AlphaGet (symbol c) 1 # rest"
    by blast
  consider (primary) "w2 = w1" | (yahoo) "fetchFromYahoo P A (symbol c) w1 = (rows, w2)"
    using assms ca unfolding fetchCompanyData_def
    by (auto split: sum.splits option.splits)
  then show ?thesis
  proof cases
    case primary
    then show ?thesis using f1 t1 by simp
  next
    case yahoo
    from fetchFromYahoo_frame [OF yahoo] show ?thesis
      using f1 t1 by (auto intro: same_store_trans)
  qed
qed

subsection \<open>Primary first, then the fallback\<close>

lemma fetch_loop_null:
  assumes "fetchCompanyData P A c w = Some (None, w2)"
  shows "fetch_loop P A (c # cs) n w =
         fetch_loop P A cs (n\<lparr>errorCount := errorCount n + 1\<rparr>)
           (if cs \<noteq> [] then sleep (perRequestDelayMs P) w2 else w2)"
  using assms by (simp add: perRequestDelayMs_def Let_def)

lemma fetchCompanyData_fallback_step:
  assumes "callAlpha P (symbol c) 1 w = Some (r, w1)"
  shows "(\<exists>evs. trace w1 = trace w @ AlphaGet (symbol c) 1 # evs) \<and>
         (primary_without_series r \<longrightarrow>
            fetchCompanyData P A c w = Some (fetchFromYahoo P A (symbol c) w1) \<and>
            trace (snd (fetchFromYahoo P A (symbol c) w1))
              = trace w1 @ [YahooGet (symbol c) (yahoo_range A)]) \<and>
         (primary_without_series r \<and> fst (fetchFromYahoo P A (symbol c) w1) = None \<longrightarrow>
            (\<exists>w2. fetchCompanyData P A c w = Some (None, w2) \<and> csv_file w2 = csv_file w \<and>
                  fetch_loop P A (c # cs) n w =
                  fetch_loop P A cs (n\<lparr>errorCount := errorCount n + 1\<rparr>)
                    (if cs \<noteq> [] then sleep (perRequestDelayMs P) w2 else w2)))"
proof -
  obtain y w2 where yh: "fetchFromYahoo P A (symbol c) w1 = (y, w2)"
    by (cases "fetchFromYahoo P A (symbol c) w1")
  have first: "\<exists>evs. trace w1 = trace w @ AlphaGet (symbol c) 1 # evs"
    and st1: "same_store w w1"
    using callAlpha_frame [OF assms] by simp_all
  have fb: "fetchCompanyData P A c w = Some (fetchFromYahoo P A (symbol c) w1)"
    if "primary_without_series r"
    using that assms unfolding fetchCompanyData_def primary_without_series_def
    by (auto split: sum.splits)
  have tr: "trace (snd (fetchFromYahoo P A (symbol c) w1)) = trace w1 @ [YahooGet (symbol c) (yahoo_range A)]"
    using fetchFromYahoo_frame [OF yh] by (simp add: yh)
  have both: "\<exists>w2. fetchCompanyData P A c w = Some (None, w2) \<and> csv_file w2 = csv_file w \<and>
                  fetch_loop P A (c # cs) n w =
                  fetch_loop P A cs (n\<lparr>errorCount := errorCount n + 1\<rparr>)
                    (if cs \<noteq> [] then sleep (perRequestDelayMs P) w2 else w2)"
    if p: "primary_without_series r" and f: "fst (fetchFromYahoo P A (symbol c) w1) = None"
  proof -
    have y: "y = None" using f by (simp add: yh)
    have res: "fetchCompanyData P A c w = Some (None, w2)"
      using fb [OF p] by (simp add: yh y)
    have "csv_file w2 = csv_file w"
      using fetchFromYahoo_frame [OF yh] st1 by (simp add: same_store_def)
    then show ?thesis
      using res fetch_loop_null [OF res] by blast
  qed
  show ?thesis
    using first fb tr both by blast
qed

text \<open>
  Claim C3. With a retry budget that is a number, the primary call of
  \<^verbatim>\<open>fetchCompanyData\<close> returns, and its request is the first thing the function does. If the
  call threw, or its payload has no \<^verbatim>\<open>Time Series (Daily)\<close>, the result of
  \<^verbatim>\<open>fetchCompanyData\<close> is the result of \<^verbatim>\<open>fetchFromYahoo\<close>, which was requested next: its
  rows when it has some. If Yahoo fails too, the result is \<^verbatim>\<open>null\<close>, the table is as it
  was, and the loop of \<^verbatim>\<open>fetchAllStockData\<close> goes on to the remaining companies with
  \<^verbatim>\<open>errorCount\<close> one higher.
\<close>

theorem fetchCompanyData_fallback:
  assumes "parseInt10 (env_or (STOCK_MAX_RETRIES P) ''5'') \<noteq> NaN"
  shows "\<exists>r w1. callAlpha P (symbol c) 1 w = Some (r, w1) \<and>
         (\<exists>evs. trace w1 = trace w @ AlphaGet (symbol c) 1 # evs) \<and>
         (primary_without_series r \<longrightarrow>
            fetchCompanyData P A c w = Some (fetchFromYahoo P A (symbol c) w1) \<and>
            trace (snd (fetchFromYahoo P A (symbol c) w1))
              = trace w1 @ [YahooGet (symbol c) (yahoo_range A)]) \<and>
         (primary_without_series r \<and> fst (fetchFromYahoo P A (symbol c) w1) = None \<longrightarrow>
            (\<exists>w2. fetchCompanyData P A c w = Some (None, w2) \<and> csv_file w2 = csv_file w \<and>
                  fetch_loop P A (c # cs) n w =
                  fetch_loop P A cs (n\<lparr>errorCount := errorCount n + 1\<rparr>)
                    (if cs \<noteq> [] then sleep (perRequestDelayMs P) w2 else w2)))"
proof -
  obtain r w1 where ca: "callAlpha P (symbol c) 1 w = Some (r, w1)"
    using callAlpha_returns [OF assms] by blast
  show ?thesis
    using ca fetchCompanyData_fallback_step [OF ca, of A cs n] by blast
qed

lemma default_retries_number:
  "STOCK_MAX_RETRIES P = None \<Longrightarrow> parseInt10 (env_or (STOCK_MAX_RETRIES P) ''5'') \<noteq> NaN"
  using parseInt10_default_retries by simp

lemma callAlpha_fallback_platform:
  "callAlpha fallback_platform ''AAPL'' 1 (demo_world None)
     = Some (Inr empty_payload, (demo_world None)\<lparr>http_count := 1, trace := [AlphaGet ''AAPL'' 1]\<rparr>)"
  apply (subst callAlpha.simps)
  apply (simp add: fallback_platform_def empty_payload_def str_truthy_def Let_def demo_world_def)
  done

lemma callAlpha_demo_platform:
  "callAlpha demo_platform ''AAPL'' 1 (demo_world None)
     = Some (Inl TransportError, (demo_world None)\<lparr>http_count := 1, trace := [AlphaGet ''AAPL'' 1]\<rparr>)"
  apply (subst callAlpha.simps)
  apply (simp add: demo_platform_def Let_def demo_world_def)
  done

text \<open>Two runs for AAPL: a primary payload without a time series and a Yahoo chart of
  one day, which is returned; and both providers unreachable, which counts one error and
  leaves the table absent.\<close>

theorem fetchCompanyData_fallback_witness:
  "map_option (\<lambda>(rows, w'). (map_option (map close) rows, trace w'))
      (fetchCompanyData fallback_platform demo_agent demo_company (demo_world None))
     = Some (Some [Num 11], [AlphaGet ''AAPL'' 1, YahooGet ''AAPL'' ''1mo'']) \<and>
   map_option (\<lambda>(n, w'). (n, csv_file w'))
      (fetch_loop demo_platform demo_agent [demo_company] no_counts (demo_world None))
     = Some (\<lparr>successCount = 0, errorCount = 1, totalRows = 0\<rparr>, None)"
proof -
  let ?w = "demo_world None"
  let ?w1 = "?w\<lparr>http_count := 1, trace := [AlphaGet ''AAPL'' 1]\<rparr>"
  have sy: "symbol demo_company = ''AAPL''"
    by (simp add: demo_company_def)
  have p1: "callAlpha fallback_platform (symbol demo_company) 1 ?w = Some (Inr empty_payload, ?w1)"
    unfolding sy by (rule callAlpha_fallback_platform)
  have s1: "primary_without_series (Inr empty_payload)"
    by (simp add: primary_without_series_def empty_payload_def)
  have y1: "(\<lambda>(rows, w'). (map_option (map close) rows, trace w'))
              (fetchFromYahoo fallback_platform demo_agent ''AAPL'' ?w1)
            = (Some [Num 11], [AlphaGet ''AAPL'' 1, YahooGet ''AAPL'' ''1mo''])"
    by code_simp
  have n1: "parseInt10 (env_or (STOCK_MAX_RETRIES fallback_platform) ''5'') \<noteq> NaN"
    by (rule default_retries_number) (simp add: fallback_platform_def demo_platform_def)
  obtain r w1 where c1: "callAlpha fallback_platform (symbol demo_company) 1 ?w = Some (r, w1)"
    and f1: "primary_without_series r \<longrightarrow>
             fetchCompanyData fallback_platform demo_agent demo_company ?w
               = Some (fetchFromYahoo fallback_platform demo_agent (symbol demo_company) w1)"
    using fetchCompanyData_fallback [OF n1, of demo_company ?w demo_agent] by blast
  have "r = Inr empty_payload" "w1 = ?w1"
    using c1 p1 by simp_all
  then have "fetchCompanyData fallback_platform demo_agent demo_company ?w
          = Some (fetchFromYahoo fallback_platform demo_agent ''AAPL'' ?w1)"
    using f1 s1 sy by simp
  then have one: "map_option (\<lambda>(rows, w'). (map_option (map close) rows, trace w'))
      (fetchCompanyData fallback_platform demo_agent demo_company ?w)
     = Some (Some [Num 11], [AlphaGet ''AAPL'' 1, YahooGet ''AAPL'' ''1mo''])"
    using y1 by simp
  have p2: "callAlpha demo_platform (symbol demo_company) 1 ?w = Some (Inl TransportError, ?w1)"
    unfolding sy by (rule callAlpha_demo_platform)
  have s2: "primary_without_series (Inl TransportError)"
    by (simp add: primary_without_series_def)
  have y2: "fst (fetchFromYahoo demo_platform demo_agent (symbol demo_company) ?w1) = None"
    by (simp add: fetchFromYahoo_def demo_platform_def Let_def)
  have n2: "parseInt10 (env_or (STOCK_MAX_RETRIES demo_platform) ''5'') \<noteq> NaN"
    by (rule default_retries_number) (simp add: demo_platform_def)
  obtain r' w1' where c2: "callAlpha demo_platform (symbol demo_company) 1 ?w = Some (r', w1')"
    and f2: "primary_without_series r' \<and>
             fst (fetchFromYahoo demo_platform demo_agent (symbol demo_company) w1') = None \<longrightarrow>
             (\<exists>w2. fetchCompanyData demo_platform demo_agent demo_company ?w = Some (None, w2) \<and>
                csv_file w2 = csv_file ?w \<and>
                fetch_loop demo_platform demo_agent [demo_company] no_counts ?w =
                fetch_loop demo_platform demo_agent [] (no_counts\<lparr>errorCount := errorCount no_counts + 1\<rparr>)
                  (if [] \<noteq> ([] :: company list) then sleep (perRequestDelayMs demo_platform) w2 else w2))"
    using fetchCompanyData_fallback [OF n2, of demo_company ?w demo_agent "[]" no_counts] by blast
  have "r' = Inl TransportError" "w1' = ?w1"
    using c2 p2 by simp_all
  then obtain w2 where "csv_file w2 = csv_file ?w"
    and "fetch_loop demo_platform demo_agent [demo_company] no_counts ?w =
         fetch_loop demo_platform demo_agent [] (no_counts\<lparr>errorCount := errorCount no_counts + 1\<rparr>)
           (if [] \<noteq> ([] :: company list) then sleep (perRequestDelayMs demo_platform) w2 else w2)"
    using f2 s2 y2 by blast
  then have two: "map_option (\<lambda>(n, w'). (n, csv_file w'))
      (fetch_loop demo_platform demo_agent [demo_company] no_counts ?w)
     = Some (\<lparr>successCount = 0, errorCount = 1, totalRows = 0\<rparr>, None)"
    by (simp add: no_counts_def demo_world_def)
  show ?thesis
    using one two by (rule conjI)
qed

subsection \<open>One round of the loop, and the whole loop\<close>

lemma same_flags_refl [simp]: "same_flags w w"
  by (simp add: same_flags_def)

lemma same_store_flags: "same_store w w' \<Longrightarrow> same_flags w w'"
  by (simp add: same_store_def same_flags_def)

lemma same_flags_trans: "same_flags a b \<Longrightarrow> same_flags b c \<Longrightarrow> same_flags a c"
  by (simp add: same_flags_def)

lemma same_flags_throttle [simp]: "same_flags w (throttle P cs w)"
  by (simp add: same_flags_def throttle_def sleep_def)

lemma csv_file_throttle [simp]: "csv_file (throttle P cs w) = csv_file w"
  by (simp add: throttle_def sleep_def)

lemma saveToCsv_append:
  "saveToCsv P rows True w =
     (if dir_exists w \<and> csv_write_ok w
      then Inr (w\<lparr>csv_file := Some ((case csv_file w of None \<Rightarrow> [] | Some old \<Rightarrow> old) @ stringifyRecords P rows),
                  trace := trace w @ [CsvWrite ''a'' (length rows)]\<rparr>)
      else Inl FsError)"
  by (simp add: saveToCsv_def writeRecords_def)

lemma fetch_loop_saved:
  assumes "fetchCompanyData P A c w = Some (Some rows, w1)" and "rows \<noteq> []"
    and "saveToCsv P rows True w1 = Inr w2"
  shows "fetch_loop P A (c # cs) n w =
         fetch_loop P A cs (n\<lparr>totalRows := totalRows n + length rows,
                               successCount := successCount n + 1\<rparr>) (throttle P cs w2)"
  using assms by (simp add: perRequestDelayMs_def throttle_def Let_def)

lemma fetch_loop_failed:
  assumes "fetchCompanyData P A c w = Some (stockData, w1)"
    and "stockData = None \<or> stockData = Some [] \<or> (\<exists>e. saveToCsv P (the stockData) True w1 = Inl e)"
  shows "fetch_loop P A (c # cs) n w =
         fetch_loop P A cs (n\<lparr>errorCount := errorCount n + 1\<rparr>) (throttle P cs w1)"
  using assms by (auto simp: perRequestDelayMs_def throttle_def Let_def split: option.splits)

lemma fetch_loop_step:
  assumes fc: "fetchCompanyData P A c w = Some (stockData, w1)"
  shows "(appendable w stockData \<longrightarrow>
            (\<exists>w2. saveToCsv P (the stockData) True w1 = Inr w2 \<and>
               csv_file w2 = Some ((case csv_file w of None \<Rightarrow> [] | Some old \<Rightarrow> old)
                                     @ stringifyRecords P (the stockData)) \<and>
               trace w2 = trace w1 @ [CsvWrite ''a'' (length (the stockData))] \<and>
               same_flags w w2 \<and>
               fetch_loop P A (c # cs) n w =
               fetch_loop P A cs (n\<lparr>totalRows := totalRows n + length (the stockData),
                                     successCount := successCount n + 1\<rparr>) (throttle P cs w2))) \<and>
         (\<not> appendable w stockData \<longrightarrow>
            same_store w w1 \<and>
            fetch_loop P A (c # cs) n w =
            fetch_loop P A cs (n\<lparr>errorCount := errorCount n + 1\<rparr>) (throttle P cs w1))"
proof -
  have st: "same_store w w1"
    using fetchCompanyData_frame [OF fc] by simp
  have ok: "dir_exists w1 = dir_exists w" "csv_write_ok w1 = csv_write_ok w" "csv_file w1 = csv_file w"
    using st by (simp_all add: same_store_def)
  show ?thesis
  proof (cases "appendable w stockData")
    case True
    then obtain rows where rows: "stockData = Some rows" "rows \<noteq> []"
      and fs: "dir_exists w" "csv_write_ok w"
      by (auto simp: appendable_def split: option.splits)
    define w2 where "w2 = w1\<lparr>csv_file := Some ((case csv_file w1 of None \<Rightarrow> [] | Some old \<Rightarrow> old)
                                     @ stringifyRecords P rows),
                              trace := trace w1 @ [CsvWrite ''a'' (length rows)]\<rparr>"
    have sv: "saveToCsv P rows True w1 = Inr w2"
      using fs ok by (simp add: saveToCsv_append w2_def)
    have "same_flags w w2"
      using st by (simp add: w2_def same_flags_def same_store_def)
    moreover have "csv_file w2 = Some ((case csv_file w of None \<Rightarrow> [] | Some old \<Rightarrow> old)
                                     @ stringifyRecords P rows)"
      by (simp add: w2_def ok)
    moreover have "trace w2 = trace w1 @ [CsvWrite ''a'' (length rows)]"
      by (simp add: w2_def)
    moreover note fetch_loop_saved [OF fc [unfolded rows(1)] rows(2) sv, of cs n]
    ultimately show ?thesis
      using True sv rows by auto
  next
    case False
    then have "stockData = None \<or> stockData = Some [] \<or> (\<exists>e. saveToCsv P (the stockData) True w1 = Inl e)"
      using ok by (auto simp: appendable_def saveToCsv_append split: option.splits)
    from fetch_loop_failed [OF fc this, of cs n] show ?thesis
      using False st by simp
  qed
qed

lemma fetch_loop_total:
  assumes num: "parseInt10 (env_or (STOCK_MAX_RETRIES P) ''5'') \<noteq> NaN"
  shows "\<exists>n' w'. fetch_loop P A cs n w = Some (n', w') \<and> same_flags w w' \<and>
           successCount n' + errorCount n' = successCount n + errorCount n + length cs"
proof (induction cs arbitrary: n w)
  case Nil
  then show ?case by simp
next
  case (Cons c cs)
  obtain stockData w1 where fc: "fetchCompanyData P A c w = Some (stockData, w1)"
    using fetchCompanyData_returns [OF num] by blast
  note step = fetch_loop_step [OF fc, of cs n]
  show ?case
  proof (cases "appendable w stockData")
    case True
    then obtain w2 where fl: "same_flags w w2"
      and eq: "fetch_loop P A (c # cs) n w =
               fetch_loop P A cs (n\<lparr>totalRows := totalRows n + length (the stockData),
                                     successCount := successCount n + 1\<rparr>) (throttle P cs w2)"
      using step by blast
    obtain n' w' where r: "fetch_loop P A cs (n\<lparr>totalRows := totalRows n + length (the stockData),
                                     successCount := successCount n + 1\<rparr>) (throttle P cs w2) = Some (n', w')"
      and f: "same_flags (throttle P cs w2) w'"
      and k: "successCount n' + errorCount n' =
              successCount (n\<lparr>totalRows := totalRows n + length (the stockData),
                                     successCount := successCount n + 1\<rparr>)
              + errorCount (n\<lparr>totalRows := totalRows n + length (the stockData),
                                     successCount := successCount n + 1\<rparr>) + length cs"
      using Cons.IH by blast
    have "same_flags w w'"
      using fl f same_flags_throttle [of w2 P cs] by (blast intro: same_flags_trans)
    then show ?thesis
      using r k unfolding eq by simp
  next
    case False
    then have st: "same_store w w1"
      and eq: "fetch_loop P A (c # cs) n w =
               fetch_loop P A cs (n\<lparr>errorCount := errorCount n + 1\<rparr>) (throttle P cs w1)"
      using step by blast+
    obtain n' w' where r: "fetch_loop P A cs (n\<lparr>errorCount := errorCount n + 1\<rparr>) (throttle P cs w1) = Some (n', w')"
      and f: "same_flags (throttle P cs w1) w'"
      and k: "successCount n' + errorCount n' =
              successCount (n\<lparr>errorCount := errorCount n + 1\<rparr>)
              + errorCount (n\<lparr>errorCount := errorCount n + 1\<rparr>) + length cs"
      using Cons.IH by blast
    have "same_flags w w'"
      using same_store_flags [OF st] f same_flags_throttle [of w1 P cs] by (blast intro: same_flags_trans)
    then show ?thesis
      using r k unfolding eq by simp
  qed
qed

text \<open>
  Claim C4, as the code has it. With a retry budget that is a number, each round of the
  loop of \<^verbatim>\<open>fetchAllStockData\<close> gets a result for its company, and
  \<^item> when the result is a non-empty array and the file system takes the append, the rows
    are appended to the table at once: the rounds for the remaining companies start from
    a world whose table already ends with them, and \<^verbatim>\<open>successCount\<close> is one higher;
  \<^item> otherwise (the result is \<^verbatim>\<open>null\<close>, it is an empty array, or the append throws) the
    table is as it was, \<^verbatim>\<open>errorCount\<close> is one higher, and the loop goes on;
  \<^item> the loop returns, and every company is tallied once: no failure leaves the loop.
\<close>

theorem fetch_loop_tallies:
  assumes "parseInt10 (env_or (STOCK_MAX_RETRIES P) ''5'') \<noteq> NaN"
  shows "\<exists>stockData w1. fetchCompanyData P A c w = Some (stockData, w1) \<and>
         (appendable w stockData \<longrightarrow>
            (\<exists>w2. saveToCsv P (the stockData) True w1 = Inr w2 \<and>
               csv_file w2 = Some ((case csv_file w of None \<Rightarrow> [] | Some old \<Rightarrow> old)
                                     @ stringifyRecords P (the stockData)) \<and>
               trace w2 = trace w1 @ [CsvWrite ''a'' (length (the stockData))] \<and>
               fetch_loop P A (c # cs) n w =
               fetch_loop P A cs (n\<lparr>totalRows := totalRows n + length (the stockData),
                                     successCount := successCount n + 1\<rparr>) (throttle P cs w2))) \<and>
         (\<not> appendable w stockData \<longrightarrow>
            csv_file w1 = csv_file w \<and>
            fetch_loop P A (c # cs) n w =
            fetch_loop P A cs (n\<lparr>errorCount := errorCount n + 1\<rparr>) (throttle P cs w1)) \<and>
         (\<exists>n' w'. fetch_loop P A (c # cs) n w = Some (n', w') \<and>
            successCount n' + errorCount n' = successCount n + errorCount n + length (c # cs))"
proof -
  obtain stockData w1 where fc: "fetchCompanyData P A c w = Some (stockData, w1)"
    using fetchCompanyData_returns [OF assms] by blast
  have "\<not> appendable w stockData \<longrightarrow> csv_file w1 = csv_file w"
    using fetch_loop_step [OF fc, of cs n] by (simp add: same_store_def)
  then show ?thesis
    using fc fetch_loop_step [OF fc, of cs n] fetch_loop_total [OF assms, of A "c # cs" n w]
    by blast
qed

lemma fetchCompanyData_demo_chart:
  "fetchCompanyData fallback_platform demo_agent demo_company two_column_table
     = Some (Some [demo_row],
             two_column_table\<lparr>http_count := 2,
                               trace := [AlphaGet ''AAPL'' 1, YahooGet ''AAPL'' ''1mo'']\<rparr>)"
  by code_simp

text \<open>A run for AAPL whose row comes from the Yahoo chart and is appended.\<close>

theorem fetch_loop_tallies_witness:
  "parseInt10 (env_or (STOCK_MAX_RETRIES fallback_platform) ''5'') \<noteq> NaN \<and>
   appendable two_column_table (Some [demo_row]) \<and>
   map_option (\<lambda>(n, w'). (n, csv_file w'))
       (fetch_loop fallback_platform demo_agent [demo_company] no_counts two_column_table)
     = Some (\<lparr>successCount = 1, errorCount = 0, totalRows = 1\<rparr>,
             Some ''Date,Symbol\<newline>2024-01-02,AAPL\<newline>'')"
proof -
  let ?w = two_column_table
  have num: "parseInt10 (env_or (STOCK_MAX_RETRIES fallback_platform) ''5'') \<noteq> NaN"
    by (rule default_retries_number) (simp add: fallback_platform_def demo_platform_def)
  have app: "appendable ?w (Some [demo_row])"
    by (simp add: appendable_def two_column_table_def demo_world_def)
  obtain stockData w1 where fc: "fetchCompanyData fallback_platform demo_agent demo_company ?w = Some (stockData, w1)"
    and sv: "appendable ?w stockData \<longrightarrow>
            (\<exists>w2. csv_file w2 = Some ((case csv_file ?w of None \<Rightarrow> [] | Some old \<Rightarrow> old)
                                     @ stringifyRecords fallback_platform (the stockData)) \<and>
               fetch_loop fallback_platform demo_agent [demo_company] no_counts ?w =
               fetch_loop fallback_platform demo_agent []
                 (no_counts\<lparr>totalRows := totalRows no_counts + length (the stockData),
                            successCount := successCount no_counts + 1\<rparr>)
                 (throttle fallback_platform [] w2))"
    using fetch_loop_tallies [OF num, of demo_agent demo_company ?w "[]" no_counts] by blast
  have sd: "stockData = Some [demo_row]"
    using fc by (simp add: fetchCompanyData_demo_chart)
  obtain w2 where csv: "csv_file w2 = Some ((case csv_file ?w of None \<Rightarrow> [] | Some old \<Rightarrow> old)
                                     @ stringifyRecords fallback_platform [demo_row])"
    and fl: "fetch_loop fallback_platform demo_agent [demo_company] no_counts ?w =
               fetch_loop fallback_platform demo_agent []
                 (no_counts\<lparr>totalRows := totalRows no_counts + length [demo_row],
                            successCount := successCount no_counts + 1\<rparr>)
                 (throttle fallback_platform [] w2)"
    using sv app unfolding sd by auto
  have content: "(case csv_file ?w of None \<Rightarrow> [] | Some old \<Rightarrow> old) @ stringifyRecords fallback_platform [demo_row]
              = ''Date,Symbol\<newline>2024-01-02,AAPL\<newline>''"
    by (simp add: two_column_table_def demo_world_def stringifyRecords_def fallback_platform_def
        demo_platform_def demo_row_def)
  have "map_option (\<lambda>(n, w'). (n, csv_file w'))
       (fetch_loop fallback_platform demo_agent [demo_company] no_counts ?w)
     = Some (\<lparr>successCount = 1, errorCount = 0, totalRows = 1\<rparr>,
             Some ''Date,Symbol\<newline>2024-01-02,AAPL\<newline>'')"
    unfolding fl by (simp add: throttle_def no_counts_def csv content)
  then show ?thesis
    using num app by blast
qed

text \<open>
  Claim C4 as stated fails for a result that is not \<^verbatim>\<open>null\<close> but empty: Yahoo's chart has
  one day without prices, \<^verbatim>\<open>fetchCompanyData\<close> returns \<^verbatim>\<open>[]\<close>, and the loop counts an
  error, not a success.
\<close>

theorem fetch_loop_tallies_counterexample:
  "map_option fst (fetchCompanyData null_chart_platform demo_agent demo_company
                     two_column_table) = Some (Some []) \<and>
   map_option (\<lambda>(n, w'). (n, csv_file w'))
       (fetch_loop null_chart_platform demo_agent [demo_company] no_counts
          two_column_table)
     = Some (\<lparr>successCount = 0, errorCount = 1, totalRows = 0\<rparr>, Some ''Date,Symbol\<newline>'')"
proof -
  let ?w = two_column_table
  let ?w1 = "?w\<lparr>http_count := 2, trace := [AlphaGet ''AAPL'' 1, YahooGet ''AAPL'' ''1mo'']\<rparr>"
  have fc: "fetchCompanyData null_chart_platform demo_agent demo_company ?w = Some (Some [], ?w1)"
    by code_simp
  have "fetch_loop null_chart_platform demo_agent [demo_company] no_counts ?w
          = fetch_loop null_chart_platform demo_agent [] (no_counts\<lparr>errorCount := errorCount no_counts + 1\<rparr>)
              (throttle null_chart_platform [] ?w1)"
    by (rule fetch_loop_failed [OF fc]) simp
  also have "\<dots> = Some (\<lparr>successCount = 0, errorCount = 1, totalRows = 0\<rparr>, ?w1)"
    by (simp add: no_counts_def throttle_def)
  finally have fl: "fetch_loop null_chart_platform demo_agent [demo_company] no_counts ?w
          = Some (\<lparr>successCount = 0, errorCount = 1, totalRows = 0\<rparr>, ?w1)" .
  show ?thesis
    unfolding fl fc by (simp add: two_column_table_def demo_world_def)
qed

subsection \<open>The metadata file and the freshness test\<close>

lemma updateLastUpdateTime_written:
  assumes "dir_exists w" "meta_write_ok w"
  shows "meta_file (updateLastUpdateTime A w) =
           Some (MetaObj \<lparr>lastUpdate = Num (real_of_int (clock w)),
                           totalCompanies = length (companies A),
                           dataPoints = getDataPointCount w\<rparr>)"
    and "csv_file (updateLastUpdateTime A w) = csv_file w"
    and "clock (updateLastUpdateTime A w) = clock w"
  using assms by (simp_all add: updateLastUpdateTime_def)

lemma updateLastUpdateTime_failed:
  "\<not> (dir_exists w \<and> meta_write_ok w) \<Longrightarrow> updateLastUpdateTime A w = w"
  by (auto simp: updateLastUpdateTime_def)

lemma fetchCompanyData_both_down:
  assumes "alpha_api P (http_count w) (symbol c) = HttpError"
    and "yahoo_api P (Suc (http_count w)) (symbol c) (yahoo_range A) = HttpError"
  shows "fetchCompanyData P A c w =
           Some (None, w\<lparr>http_count := Suc (Suc (http_count w)),
                          trace := trace w @ [AlphaGet (symbol c) 1, YahooGet (symbol c) (yahoo_range A)]\<rparr>)"
proof -
  have "callAlpha P (symbol c) 1 w =
          Some (Inl TransportError,
                w\<lparr>http_count := Suc (http_count w), trace := trace w @ [AlphaGet (symbol c) 1]\<rparr>)"
    by (subst callAlpha.simps) (simp add: assms(1) Let_def)
  then show ?thesis
    using assms(2) by (simp add: fetchCompanyData_def fetchFromYahoo_def yahoo_range_def Let_def)
qed

lemma fetch_loop_demo_down:
  assumes "csv_file w = csv_file stored_world"
  shows "\<exists>w1. fetch_loop demo_platform demo_agent (companies demo_agent) no_counts w
           = Some (\<lparr>successCount = 0, errorCount = 1, totalRows = 0\<rparr>, w1) \<and>
         clock w1 = clock w \<and> csv_file w1 = csv_file w"
proof -
  let ?w1 = "w\<lparr>http_count := Suc (Suc (http_count w)),
               trace := trace w @ [AlphaGet (symbol demo_company) 1,
                                   YahooGet (symbol demo_company) (yahoo_range demo_agent)]\<rparr>"
  have fc: "fetchCompanyData demo_platform demo_agent demo_company w = Some (None, ?w1)"
    by (rule fetchCompanyData_both_down) (simp_all add: demo_platform_def)
  have "fetch_loop demo_platform demo_agent [demo_company] no_counts w
          = fetch_loop demo_platform demo_agent [] (no_counts\<lparr>errorCount := errorCount no_counts + 1\<rparr>)
              (throttle demo_platform [] ?w1)"
    by (rule fetch_loop_failed [OF fc]) simp
  also have "\<dots> = Some (\<lparr>successCount = 0, errorCount = 1, totalRows = 0\<rparr>, ?w1)"
    by (simp add: no_counts_def throttle_def)
  finally show ?thesis
    by (simp add: demo_agent_def)
qed

lemma demo_platform_ready:
  "str_truthy (ALPHA_VANTAGE_API_KEY demo_platform)"
  "parseInt10 (env_or (STOCK_MAX_RETRIES demo_platform) ''5'') \<noteq> NaN"
  by (simp add: demo_platform_def str_truthy_def)
     (rule default_retries_number, simp add: demo_platform_def)

lemma demo_csv_lines: "length (non_blank_lines demo_csv) = 5"
  by code_simp

text \<open>
  Claim C5. Let the API key be configured, the retry budget be a number and the file
  system take the write of \<^verbatim>\<open>last_update.json\<close>. Then every run of
  \<^verbatim>\<open>fetchAllStockData\<close> returns its counters and, after the loop, has replaced the
  metadata by the time of the clock at that moment, the number of configured companies
  and the number of non-blank lines of the table as it is then, less one for the header
  (zero for a missing or empty table). Nothing in this depends on the counters: it holds
  also when every symbol failed.
\<close>

theorem fetchAllStockData_metadata:
  assumes "str_truthy (ALPHA_VANTAGE_API_KEY P)"
    and "parseInt10 (env_or (STOCK_MAX_RETRIES P) ''5'') \<noteq> NaN"
    and "dir_exists w" and "meta_write_ok w"
  shows "\<exists>n w1 w'. fetch_loop P A (companies A) no_counts w = Some (n, w1) \<and>
           fetchAllStockData P A w = Some (Inr n, w') \<and>
           meta_file w' = Some (MetaObj \<lparr>lastUpdate = Num (real_of_int (clock w1)),
                                          totalCompanies = length (companies A),
                                          dataPoints = (case csv_file w1 of None \<Rightarrow> 0
                                             | Some fileContent \<Rightarrow> length (non_blank_lines fileContent) - 1)\<rparr>) \<and>
           csv_file w' = csv_file w1 \<and> clock w' = clock w1"
proof -
  obtain n w1 where fl: "fetch_loop P A (companies A) no_counts w = Some (n, w1)"
    and fr: "same_flags w w1"
    using fetch_loop_total [OF assms(2), of A "companies A" no_counts w] by blast
  have ok: "dir_exists w1" "meta_write_ok w1"
    using fr assms(3,4) by (simp_all add: same_flags_def)
  have "fetchAllStockData P A w = Some (Inr n, updateLastUpdateTime A w1)"
    using assms(1) fl by (simp add: fetchAllStockData_def no_counts_def)
  then show ?thesis
    using fl updateLastUpdateTime_written [OF ok, of A]
    by (simp add: getDataPointCount_def)
qed

text \<open>
  A run in which the only symbol fails and nothing is appended: the metadata is written,
  with the four rows that the table already had.
\<close>

theorem fetchAllStockData_metadata_witness:
  "str_truthy (ALPHA_VANTAGE_API_KEY demo_platform) \<and>
   parseInt10 (env_or (STOCK_MAX_RETRIES demo_platform) ''5'') \<noteq> NaN \<and>
   dir_exists stored_world \<and> meta_write_ok stored_world \<and>
   map_option (\<lambda>(r, w'). (r, meta_file w')) (fetchAllStockData demo_platform demo_agent stored_world)
     = Some (Inr \<lparr>successCount = 0, errorCount = 1, totalRows = 0\<rparr>,
             Some (MetaObj \<lparr>lastUpdate = Num 1704800000000, totalCompanies = 1, dataPoints = 4\<rparr>))"
proof -
  have fs: "dir_exists stored_world" "meta_write_ok stored_world"
    by (simp_all add: stored_world_def demo_world_def)
  obtain n w1 w' where fl: "fetch_loop demo_platform demo_agent (companies demo_agent) no_counts stored_world = Some (n, w1)"
    and run: "fetchAllStockData demo_platform demo_agent stored_world = Some (Inr n, w')"
    and meta: "meta_file w' = Some (MetaObj \<lparr>lastUpdate = Num (real_of_int (clock w1)),
                                          totalCompanies = length (companies demo_agent),
                                          dataPoints = (case csv_file w1 of None \<Rightarrow> 0
                                             | Some fileContent \<Rightarrow> length (non_blank_lines fileContent) - 1)\<rparr>)"
    using fetchAllStockData_metadata [OF demo_platform_ready fs, of demo_agent] by blast
  obtain v where "fetch_loop demo_platform demo_agent (companies demo_agent) no_counts stored_world
           = Some (\<lparr>successCount = 0, errorCount = 1, totalRows = 0\<rparr>, v)"
    and "clock v = clock stored_world" and "csv_file v = csv_file stored_world"
    using fetch_loop_demo_down [OF refl] by blast
  then have n: "n = \<lparr>successCount = 0, errorCount = 1, totalRows = 0\<rparr>"
    and c: "clock w1 = 1704800000000" and f: "csv_file w1 = Some demo_csv"
    using fl by (simp_all add: stored_world_def demo_world_def)
  have "meta_file w' = Some (MetaObj \<lparr>lastUpdate = Num 1704800000000, totalCompanies = 1, dataPoints = 4\<rparr>)"
    unfolding meta c f by (simp add: demo_csv_lines demo_agent_def)
  then show ?thesis
    using demo_platform_ready fs by (simp add: run n)
qed

text \<open>
  Claim C10. Let the API key be configured and the retry budget be a number. If the file
  system refuses the write of the metadata file (or its directory is missing),
  \<^verbatim>\<open>updateLastUpdateTime\<close> returns with the world as it was, \<^verbatim>\<open>fetchAllStockData\<close>
  returns its counters, not an exception, and the metadata is what it was before the
  run, present or absent.
\<close>

theorem fetchAllStockData_metadata_failure:
  assumes "str_truthy (ALPHA_VANTAGE_API_KEY P)"
    and "parseInt10 (env_or (STOCK_MAX_RETRIES P) ''5'') \<noteq> NaN"
    and "\<not> (dir_exists w \<and> meta_write_ok w)"
  shows "\<exists>n w1. fetch_loop P A (companies A) no_counts w = Some (n, w1) \<and>
           updateLastUpdateTime A w1 = w1 \<and>
           fetchAllStockData P A w = Some (Inr n, w1) \<and>
           meta_file w1 = meta_file w"
proof -
  obtain n w1 where fl: "fetch_loop P A (companies A) no_counts w = Some (n, w1)"
    and fr: "same_flags w w1"
    using fetch_loop_total [OF assms(2), of A "companies A" no_counts w] by blast
  have bad: "\<not> (dir_exists w1 \<and> meta_write_ok w1)"
    using fr assms(3) by (simp add: same_flags_def)
  have "fetchAllStockData P A w = Some (Inr n, updateLastUpdateTime A w1)"
    using assms(1) fl by (simp add: fetchAllStockData_def no_counts_def)
  then show ?thesis
    using fl updateLastUpdateTime_failed [OF bad, of A] fr
    by (simp add: same_flags_def)
qed

lemma needsUpdate_no_metadata: "meta_file w = None \<Longrightarrow> needsUpdate w"
  by (simp add: needsUpdate_def getLastUpdateInfo_def)

lemma needsUpdate_elapsed:
  assumes "meta_file w = Some (MetaObj info)" and "lastUpdate info = Num (real_of_int t0)"
  shows "needsUpdate w = (clock w - t0 > 24 * 60 * 60 * 1000)"
proof -
  have "(24 < (real_of_int (clock w) - real_of_int t0) / 3600000) = (86400000 < clock w - t0)"
    by (simp add: field_simps) linarith
  then show ?thesis
    using assms by (simp add: needsUpdate_def getLastUpdateInfo_def js_sub_def)
qed

text \<open>
  Claim C6. Without a metadata file \<^verbatim>\<open>needsUpdate\<close> is true. After a run of
  \<^verbatim>\<open>fetchAllStockData\<close> that wrote its metadata (key configured, numeric retry budget,
  write accepted), \<^verbatim>\<open>needsUpdate\<close> is false at the time the run ended, and at any time
  \<open>t\<close> of the clock it is true exactly when more than 24 hours (\<open>86400000\<close> ms) lie
  between the end of the run and \<open>t\<close>.
\<close>

theorem needsUpdate_freshness:
  assumes "str_truthy (ALPHA_VANTAGE_API_KEY P)"
    and "parseInt10 (env_or (STOCK_MAX_RETRIES P) ''5'') \<noteq> NaN"
    and "dir_exists w" and "meta_write_ok w"
  shows "needsUpdate (w\<lparr>meta_file := None\<rparr>) \<and>
         (\<exists>n w'. fetchAllStockData P A w = Some (Inr n, w') \<and> \<not> needsUpdate w' \<and>
            (\<forall>t. needsUpdate (w'\<lparr>clock := t\<rparr>) = (t - clock w' > 24 * 60 * 60 * 1000)))"
proof -
  obtain n w1 where fl: "fetch_loop P A (companies A) no_counts w = Some (n, w1)"
    and fr: "same_flags w w1"
    using fetch_loop_total [OF assms(2), of A "companies A" no_counts w] by blast
  have ok: "dir_exists w1" "meta_write_ok w1"
    using fr assms(3,4) by (simp_all add: same_flags_def)
  define w' where "w' = updateLastUpdateTime A w1"
  define info where "info = \<lparr>lastUpdate = Num (real_of_int (clock w1)),
                           totalCompanies = length (companies A),
                           dataPoints = getDataPointCount w1\<rparr>"
  have run: "fetchAllStockData P A w = Some (Inr n, w')"
    using assms(1) fl by (simp add: fetchAllStockData_def no_counts_def w'_def)
  have m: "meta_file w' = Some (MetaObj info)" and c: "clock w' = clock w1"
    using updateLastUpdateTime_written [OF ok, of A] by (simp_all add: w'_def info_def)
  have lu: "lastUpdate info = Num (real_of_int (clock w1))"
    by (simp add: info_def)
  have later: "needsUpdate (w'\<lparr>clock := t\<rparr>) = (t - clock w' > 24 * 60 * 60 * 1000)" for t
    using needsUpdate_elapsed [of "w'\<lparr>clock := t\<rparr>" info "clock w1"] m lu c by simp
  have now: "\<not> needsUpdate w'"
    using needsUpdate_elapsed [OF m lu] c by simp
  have "needsUpdate (w\<lparr>meta_file := None\<rparr>)"
    by (rule needsUpdate_no_metadata) simp
  then show ?thesis
    using run now later by blast
qed


text \<open>
  A world whose metadata file cannot be written: the run returns its counters and the
  old metadata stays.
\<close>

theorem fetchAllStockData_metadata_failure_witness:
  "str_truthy (ALPHA_VANTAGE_API_KEY demo_platform) \<and>
   parseInt10 (env_or (STOCK_MAX_RETRIES demo_platform) ''5'') \<noteq> NaN \<and>
   \<not> (dir_exists readonly_meta_world \<and> meta_write_ok readonly_meta_world) \<and>
   map_option (\<lambda>(r, w'). (r, meta_file w')) (fetchAllStockData demo_platform demo_agent readonly_meta_world)
     = Some (Inr \<lparr>successCount = 0, errorCount = 1, totalRows = 0\<rparr>, Some (MetaObj old_info))"
proof -
  have fs: "\<not> (dir_exists readonly_meta_world \<and> meta_write_ok readonly_meta_world)"
    by (simp add: readonly_meta_world_def)
  obtain n w1 where fl: "fetch_loop demo_platform demo_agent (companies demo_agent) no_counts readonly_meta_world = Some (n, w1)"
    and run: "fetchAllStockData demo_platform demo_agent readonly_meta_world = Some (Inr n, w1)"
    and meta: "meta_file w1 = meta_file readonly_meta_world"
    using fetchAllStockData_metadata_failure [OF demo_platform_ready fs, of demo_agent] by blast
  have "csv_file readonly_meta_world = csv_file stored_world"
    by (simp add: readonly_meta_world_def)
  from fetch_loop_demo_down [OF this]
  have n: "n = \<lparr>successCount = 0, errorCount = 1, totalRows = 0\<rparr>"
    using fl by auto
  have "meta_file w1 = Some (MetaObj old_info)"
    unfolding meta by (simp add: readonly_meta_world_def)
  then show ?thesis
    using demo_platform_ready fs by (simp add: run n)
qed

text \<open>
  A cold start needs an update; after the run, none at once, none after exactly 24
  hours, one after 24 hours and a millisecond.
\<close>

theorem needsUpdate_freshness_witness:
  "str_truthy (ALPHA_VANTAGE_API_KEY demo_platform) \<and>
   parseInt10 (env_or (STOCK_MAX_RETRIES demo_platform) ''5'') \<noteq> NaN \<and>
   dir_exists stored_world \<and> meta_write_ok stored_world \<and>
   needsUpdate stored_world \<and>
   map_option (\<lambda>(r, w'). (needsUpdate w',
                            needsUpdate (w'\<lparr>clock := clock w' + 86400000\<rparr>),
                            needsUpdate (w'\<lparr>clock := clock w' + 86400001\<rparr>)))
      (fetchAllStockData demo_platform demo_agent stored_world)
     = Some (False, False, True)"
proof -
  have fs: "dir_exists stored_world" "meta_write_ok stored_world"
    by (simp_all add: stored_world_def demo_world_def)
  have same: "stored_world\<lparr>meta_file := None\<rparr> = stored_world"
    by (simp add: stored_world_def demo_world_def)
  obtain n w' where run: "fetchAllStockData demo_platform demo_agent stored_world = Some (Inr n, w')"
    and now: "\<not> needsUpdate w'"
    and later: "\<And>t. needsUpdate (w'\<lparr>clock := t\<rparr>) = (t - clock w' > 24 * 60 * 60 * 1000)"
    and cold: "needsUpdate (stored_world\<lparr>meta_file := None\<rparr>)"
    using needsUpdate_freshness [OF demo_platform_ready fs, of demo_agent] by blast
  show ?thesis
    using demo_platform_ready fs cold now unfolding same run by (simp add: later)
qed

end
